theory Spec2Isabelle
  imports Main
begin

section \<open>Enumerations and result shapes\<close>

text \<open>
  The enumerations come from the Prisma client and from \<^verbatim>\<open>utils/enums/errors-metadata\<close>,
  which the controllers import. Members are written qualified, as in the TypeScript
  (\<^verbatim>\<open>TokenTypes.MagicLogin\<close>, \<^verbatim>\<open>AuthProviders.MagicLogin\<close>).
  \<^verbatim>\<open>StatusCodes.Expired\<close>, \<^verbatim>\<open>ErrorMessages.TokenNotFound\<close> and
  \<^verbatim>\<open>ErrorMessages.TokenExpired\<close> name the outcomes \<^verbatim>\<open>Expired\<close> and \<^verbatim>\<open>NotFound\<close>
  of the specification's error taxonomy for the token validator.
\<close>

datatype TokenTypes = ConfirmEmail | MagicLogin | ResetPassword | InviteUser

datatype AuthProviders = EmailAndPassword | MagicLogin

datatype EmailTemplates = ConfirmEmail | MagicLink | Welcome | ForgotPassword

datatype StatusCodes =
  OK | Unauthorized | Forbidden | NotFound | NotAcceptable | Conflict | Internal | Expired

datatype ErrorMessages =
  Unauthorized | Forbidden | InvalidCredentials | UserNotFound | InvalidUser
  | InternalError | EnvironmentNotFound | EmailInUse | TokenNotFound | TokenExpired

datatype ErrorCodes = ResourceNotFound | EmailInUse

text \<open>
  \<^verbatim>\<open>DataReturn<T>\<close>: every field is optional. The controllers test \<^verbatim>\<open>error\<close>,
  \<^verbatim>\<open>statusCode\<close> and \<^verbatim>\<open>data\<close> independently, so the three are kept apart.
\<close>

record 'a DataReturn =
  data :: "'a option"
  statusCode :: "StatusCodes option"
  error :: "ErrorMessages option"
  code :: "ErrorCodes option"

definition ok :: "'a \<Rightarrow> 'a DataReturn" where
  "ok x = \<lparr>data = Some x, statusCode = None, error = None, code = None\<rparr>"

definition failed :: "StatusCodes \<Rightarrow> ErrorMessages \<Rightarrow> 'a DataReturn" where
  "failed s m = \<lparr>data = None, statusCode = Some s, error = Some m, code = None\<rparr>"

text \<open>
  A thrown HTTP exception: its status and its body. \<^verbatim>\<open>EmailResent\<close> is the object
  \<^verbatim>\<open>{ statusCode: StatusCodes.NotAcceptable, emailResent: true }\<close>.
\<close>

datatype ExceptionBody = NoBody | Message ErrorMessages | EmailResent

type_synonym HttpException = "StatusCodes \<times> ExceptionBody"

text \<open>
  \<^verbatim>\<open>new exceptionsMapper[r.statusCode](r.error)\<close>. With no status code the mapper
  yields \<^verbatim>\<open>undefined\<close> and \<^verbatim>\<open>new\<close> raises a TypeError, which the framework reports
  as an internal error.
\<close>

definition exceptionsMapper :: "'a DataReturn \<Rightarrow> HttpException" where
  "exceptionsMapper r =
     (case statusCode r of
        None \<Rightarrow> (StatusCodes.Internal, NoBody)
      | Some s \<Rightarrow> (s, case error r of None \<Rightarrow> NoBody | Some m \<Rightarrow> Message m))"

section \<open>Data model\<close>

text \<open>
  Identifiers, opaque token values and instants are natural numbers: the code only
  compares identifiers and tokens for equality and instants for order. Durations and
  instants are counted in minutes.
\<close>

text \<open>
  Modelled from the spec: \<^verbatim>\<open>Crypt.hash\<close> is outside the source tree;
  \<^verbatim>\<open>hashPassword(plain) -> hash\<close> is one-way, so the hash of a plaintext is the symbolic
  value \<open>Hash plain\<close>.
\<close>

datatype Hash = Hash string

record Environment =
  id' :: nat
  publicKey :: string
  authProvider :: "AuthProviders option"
  tokenExpiration :: nat
  refreshTokenExpiration :: "nat option"
  enableSignUp :: bool

text \<open>
  Modelled from the spec: signed-session encoding and decoding are outside the source tree;
  session claims embed user id, tenant id and issue time, and a token verifies against the
  tenant it was signed for until its expiry. A session token is seen through its claims.
\<close>

datatype SessionKind = Access | Refresh

record Session =
  sub :: nat
  sessionEnvironmentId :: nat
  kind :: SessionKind
  iat :: nat
  exp :: nat

record AuthTokens =
  accessToken :: Session
  refreshToken :: "Session option"

text \<open>The body of \<^verbatim>\<open>POST /auth/signup\<close> and the payload of \<^verbatim>\<open>UserService.create\<close>.\<close>

record SignUpPayload =
  fullName :: string
  email :: string
  password :: "string option"

record CreatePayload =
  fullName :: string
  email :: string
  password :: "string option"
  environmentId :: nat

text \<open>
  A row of the user table. In \<open>password\<close>, \<open>None\<close> is both the column value
  \<^verbatim>\<open>null\<close> and the property removed by \<^verbatim>\<open>delete user.password\<close>: in either case the
  object carries no hash.
\<close>

record User =
  id' :: nat
  email :: string
  fullName :: string
  password :: "Hash option"
  thonLabsUser :: bool
  emailConfirmed :: bool
  active :: bool
  lastSignIn :: "nat option"
  environmentId :: "nat option"

record TokenStorage =
  token :: nat
  type :: TokenTypes
  relationId :: "nat option"
  environmentId :: "nat option"
  expires :: nat

text \<open>
  An accepted \<^verbatim>\<open>emailService.send\<close> call. Of the template data only the token is kept;
  names and URLs of the template are not modelled.
\<close>

record Email =
  to :: string
  emailTemplateType :: EmailTemplates
  environmentId :: nat
  userId :: "nat option"
  emailToken :: "nat option"
  scheduledAt :: "nat option"

text \<open>
  The state the handlers share: the tables, the outbox of the email service, the clock,
  the next identifier the database assigns and the next opaque token value.
  \<open>databaseUp\<close> is false when \<^verbatim>\<open>databaseService.user.create\<close> throws.
\<close>

record state =
  users :: "User list"
  environments :: "Environment list"
  tokenStorage :: "TokenStorage list"
  emails :: "Email list"
  now :: nat
  nextId :: nat
  nextToken :: nat
  databaseUp :: bool

section \<open>Environment directory\<close>

text \<open>
  Of a request the handlers read the tenant's public key, the header \<^verbatim>\<open>tl-env-id\<close> and
  the session of the \<^verbatim>\<open>authorization\<close> header (what \<^verbatim>\<open>decodeSession\<close> returns).
\<close>

record Request =
  publicKeyHeader :: "string option"
  envIdHeader :: "nat option"
  authorization :: "Session option"

text \<open>
  Modelled from the spec: \<^verbatim>\<open>EnvironmentService.getById\<close> is outside the source tree;
  \<^verbatim>\<open>TenantDirectory.getById\<close> returns the tenant, and an absent tenant is \<^verbatim>\<open>NotFound\<close>.
\<close>

definition EnvironmentService_getById :: "state \<Rightarrow> nat \<Rightarrow> Environment DataReturn" where
  "EnvironmentService_getById st environmentId' =
     (case find (\<lambda>e. Environment.id' e = environmentId') (environments st) of
        None \<Rightarrow> failed StatusCodes.NotFound ErrorMessages.EnvironmentNotFound
      | Some e \<Rightarrow> ok e)"

text \<open>
  Modelled from the spec: \<^verbatim>\<open>EnvironmentService.getByPublicKeyFromRequest\<close> is outside the
  source tree; \<^verbatim>\<open>TenantDirectory.getByPublicKey\<close> returns the tenant, and a bad or missing
  tenant key is \<^verbatim>\<open>Unauthorized\<close>.
\<close>

definition EnvironmentService_getByPublicKeyFromRequest ::
  "state \<Rightarrow> Request \<Rightarrow> Environment DataReturn" where
  "EnvironmentService_getByPublicKeyFromRequest st req =
     (case publicKeyHeader req of
        None \<Rightarrow> failed StatusCodes.Unauthorized ErrorMessages.Unauthorized
      | Some k \<Rightarrow>
          (case find (\<lambda>e. publicKey e = k) (environments st) of
             None \<Rightarrow> failed StatusCodes.Unauthorized ErrorMessages.Unauthorized
           | Some e \<Rightarrow> ok e))"

text \<open>
  Modelled from the spec: \<^verbatim>\<open>EnvironmentDataService.get\<close> is outside the source tree; the
  tenant's policy says whether sign-up is enabled. Only the key \<^verbatim>\<open>enableSignUp\<close> is read.
\<close>

definition EnvironmentDataService_get_enableSignUp :: "state \<Rightarrow> nat \<Rightarrow> bool DataReturn" where
  "EnvironmentDataService_get_enableSignUp st environmentId' =
     (case find (\<lambda>e. Environment.id' e = environmentId') (environments st) of
        None \<Rightarrow> failed StatusCodes.NotFound ErrorMessages.EnvironmentNotFound
      | Some e \<Rightarrow> ok (enableSignUp e))"

section \<open>UserService\<close>

definition getOurByEmail :: "state \<Rightarrow> string \<Rightarrow> User option" where
  "getOurByEmail st email' = find (\<lambda>u. User.email u = email' \<and> thonLabsUser u) (users st)"

definition getByEmail :: "state \<Rightarrow> string \<Rightarrow> nat \<Rightarrow> User option" where
  "getByEmail st email' environmentId' =
     find (\<lambda>u. User.email u = email' \<and> User.environmentId u = Some environmentId') (users st)"

definition getById :: "state \<Rightarrow> nat \<Rightarrow> User option" where
  "getById st i = find (\<lambda>u. User.id' u = i) (users st)"

text \<open>
  Modelled from the spec: \<^verbatim>\<open>DatabaseService\<close> is outside the source tree;
  \<^verbatim>\<open>UserDirectory.create\<close> persists the user. In \<^verbatim>\<open>databaseService.user.create({ data })\<close>
  the row gets the next identifier and is appended; the call throws (\<open>None\<close>) when the
  database is down.
\<close>

definition databaseService_user_create :: "state \<Rightarrow> User \<Rightarrow> (User \<times> state) option" where
  "databaseService_user_create st row =
     (if databaseUp st
      then (let user = row\<lparr>User.id' := nextId st\<rparr>
            in Some (user, st\<lparr>users := users st @ [user], nextId := Suc (nextId st)\<rparr>))
      else None)"

text \<open>
  \<^verbatim>\<open>createOwner\<close>. A rejected promise is \<open>None\<close>. The row is created from the five
  listed properties; the other columns take their defaults (active, never signed in, no
  environment).
\<close>

definition createOwner :: "state \<Rightarrow> string \<Rightarrow> (User DataReturn \<times> state) option" where
  "createOwner st payload_password =
     (case getOurByEmail st ''gustavo@gsales.io'' of
        Some owner \<Rightarrow> Some (ok owner, st)
      | None \<Rightarrow>
          (let password' = Hash payload_password
           in case databaseService_user_create st
                \<lparr>User.id' = 0, User.email = ''gustavo@gsales.io'',
                 User.fullName = ''Gustavo Owner'', User.password = Some password',
                 thonLabsUser = True, emailConfirmed = True,
                 active = True, lastSignIn = None, User.environmentId = None\<rparr> of
                None \<Rightarrow> None
              | Some (user, st') \<Rightarrow> Some (ok (user\<lparr>User.password := None\<rparr>), st')))"

text \<open>A JavaScript string is truthy when it is present and not empty.\<close>

definition truthy :: "string option \<Rightarrow> bool" where
  "truthy s = (case s of None \<Rightarrow> False | Some v \<Rightarrow> v \<noteq> [])"

text \<open>
  \<^verbatim>\<open>create\<close>. The row is created from \<^verbatim>\<open>email\<close>, \<^verbatim>\<open>fullName\<close>, \<^verbatim>\<open>password\<close> and
  \<^verbatim>\<open>thonLabsUser: false\<close>: \<^verbatim>\<open>payload.environmentId\<close> is not among the data written.
  The other columns take their defaults. \<^verbatim>\<open>environmentExists\<close> is the environment that
  \<^verbatim>\<open>environmentsService.getById\<close> finds, if any. When the database throws, the
  \<^verbatim>\<open>catch\<close> returns the internal error.
\<close>

definition create :: "state \<Rightarrow> CreatePayload \<Rightarrow> User DataReturn \<times> state" where
  "create st payload =
     (let environmentExists =
            data (EnvironmentService_getById st (CreatePayload.environmentId payload))
      in if environmentExists = None
         then (\<lparr>data = None, statusCode = Some StatusCodes.NotFound,
                 error = Some ErrorMessages.EnvironmentNotFound,
                 code = Some ErrorCodes.ResourceNotFound\<rparr>, st)
         else
           (let emailExists =
                  getByEmail st (CreatePayload.email payload) (CreatePayload.environmentId payload)
            in if emailExists \<noteq> None
               then (\<lparr>data = None, statusCode = Some StatusCodes.Conflict,
                       error = Some ErrorMessages.EmailInUse,
                       code = Some ErrorCodes.EmailInUse\<rparr>, st)
               else
                 (let password' =
                        (case CreatePayload.password payload of
                           None \<Rightarrow> None
                         | Some plain \<Rightarrow> if plain \<noteq> [] then Some (Hash plain) else None)
                  in case databaseService_user_create st
                       \<lparr>User.id' = 0, User.email = CreatePayload.email payload,
                        User.fullName = CreatePayload.fullName payload,
                        User.password = password', thonLabsUser = False, emailConfirmed = False,
                        active = True, lastSignIn = None, User.environmentId = None\<rparr> of
                       Some (user, st') \<Rightarrow> (ok (user\<lparr>User.password := None\<rparr>), st')
                     | None \<Rightarrow>
                         (\<lparr>data = None, statusCode = Some StatusCodes.Internal,
                           error = Some ErrorMessages.InternalError, code = None\<rparr>, st))))"

definition setEnvironment :: "state \<Rightarrow> nat \<Rightarrow> nat \<Rightarrow> state" where
  "setEnvironment st userId' environmentId' =
     st\<lparr>users := map (\<lambda>u. if User.id' u = userId'
                             then u\<lparr>User.environmentId := Some environmentId'\<rparr> else u)
                      (users st)\<rparr>"

section \<open>Token store\<close>

text \<open>
  Modelled from the spec: \<^verbatim>\<open>TokenStorageService.create\<close> is outside the source tree;
  \<^verbatim>\<open>create(kind, userId, tenantId, ttl)\<close> generates an opaque token, persists it with
  computed expiry and returns it. A new opaque value is the next of a counter, so it differs
  from every value issued before.
\<close>

definition TokenStorageService_create ::
  "state \<Rightarrow> nat \<Rightarrow> TokenTypes \<Rightarrow> nat \<Rightarrow> nat option \<Rightarrow> TokenStorage DataReturn \<times> state" where
  "TokenStorageService_create st relationId' type' expiresIn environmentId' =
     (let row = \<lparr>token = nextToken st, type = type', relationId = Some relationId',
                 TokenStorage.environmentId = environmentId', expires = now st + expiresIn\<rparr>
      in (ok row, st\<lparr>tokenStorage := tokenStorage st @ [row], nextToken := Suc (nextToken st)\<rparr>))"

text \<open>
  Modelled from the spec: \<^verbatim>\<open>TokenStorageService.delete\<close> is outside the source tree;
  \<^verbatim>\<open>delete(token)\<close> is idempotent, and deleting a nonexistent token is not an error.
\<close>

definition TokenStorageService_delete :: "state \<Rightarrow> nat \<Rightarrow> state" where
  "TokenStorageService_delete st token' =
     st\<lparr>tokenStorage := filter (\<lambda>r. token r \<noteq> token') (tokenStorage st)\<rparr>"

text \<open>
  Modelled from the spec: \<^verbatim>\<open>TokenStorageService.deleteMany\<close> is outside the source tree;
  \<^verbatim>\<open>deleteAllOfKind(kind, userId)\<close> removes the user's tokens of one kind.
\<close>

definition TokenStorageService_deleteMany :: "state \<Rightarrow> TokenTypes \<Rightarrow> nat \<Rightarrow> state" where
  "TokenStorageService_deleteMany st type' relationId' =
     st\<lparr>tokenStorage :=
          filter (\<lambda>r. \<not> (type r = type' \<and> relationId r = Some relationId')) (tokenStorage st)\<rparr>"

text \<open>
  Modelled from the spec: \<^verbatim>\<open>TokenStorageService.createAuthTokens\<close> is outside the source
  tree; in \<^verbatim>\<open>createSessionPair(user, tenant)\<close> the access token is always issued, the
  refresh token only if the tenant's refresh lifetime is non-null.
\<close>

definition TokenStorageService_createAuthTokens ::
  "state \<Rightarrow> User \<Rightarrow> Environment \<Rightarrow> AuthTokens DataReturn" where
  "TokenStorageService_createAuthTokens st user environment =
     ok \<lparr>accessToken =
            \<lparr>sub = User.id' user, sessionEnvironmentId = Environment.id' environment,
             kind = Access, iat = now st, exp = now st + tokenExpiration environment\<rparr>,
         refreshToken =
            (case refreshTokenExpiration environment of
               None \<Rightarrow> None
             | Some d \<Rightarrow>
                 Some \<lparr>sub = User.id' user, sessionEnvironmentId = Environment.id' environment,
                       kind = Refresh, iat = now st, exp = now st + d\<rparr>)\<rparr>"

section \<open>Email trigger\<close>

text \<open>
  Modelled from the spec: \<^verbatim>\<open>EmailService.send\<close> is outside the source tree;
  \<^verbatim>\<open>EmailTrigger{send(templateKind, recipient, payload, scheduledAt?)}\<close> accepts the email,
  which is recorded in the outbox.
\<close>

definition EmailService_send :: "state \<Rightarrow> Email \<Rightarrow> state" where
  "EmailService_send st e = st\<lparr>emails := emails st @ [e]\<rparr>"

section \<open>AuthService and the user operations the controller calls\<close>

text \<open>
  Modelled from the spec: \<^verbatim>\<open>AuthService.validateUserTokenExpiration\<close> is outside the source
  tree; in \<^verbatim>\<open>validateAndConsumeToken(token, expectedKind)\<close> an absent token is
  \<^verbatim>\<open>NotFound\<close>; a token of another kind is treated as \<^verbatim>\<open>NotFound\<close>; past its expiry the
  outcome is \<^verbatim>\<open>Expired\<close> and still carries the record; otherwise the record is returned.
  The record is never deleted by this operation.
\<close>

definition AuthService_validateUserTokenExpiration ::
  "state \<Rightarrow> nat \<Rightarrow> TokenTypes \<Rightarrow> TokenStorage DataReturn" where
  "AuthService_validateUserTokenExpiration st token' type' =
     (case find (\<lambda>r. token r = token') (tokenStorage st) of
        None \<Rightarrow> failed StatusCodes.NotFound ErrorMessages.TokenNotFound
      | Some r \<Rightarrow>
          if type r \<noteq> type' then failed StatusCodes.NotFound ErrorMessages.TokenNotFound
          else if now st > expires r
          then \<lparr>data = Some r, statusCode = Some StatusCodes.Expired,
                 error = Some ErrorMessages.TokenExpired, code = None\<rparr>
          else ok r)"

text \<open>
  Modelled from the spec: \<^verbatim>\<open>AuthService.reAuthenticateFromRefreshToken\<close> is outside the
  source tree; \<^verbatim>\<open>rotateRefresh(oldRefreshToken, tenant)\<close> verifies the old refresh token
  against the tenant and its expiry, then mints a fresh pair for its user.
\<close>

definition AuthService_reAuthenticateFromRefreshToken ::
  "state \<Rightarrow> Session \<Rightarrow> nat \<Rightarrow> AuthTokens DataReturn" where
  "AuthService_reAuthenticateFromRefreshToken st token' environmentId' =
     (if kind token' = Refresh \<and> sessionEnvironmentId token' = environmentId'
      then (if now st > exp token'
            then failed StatusCodes.Expired ErrorMessages.TokenExpired
            else (case (getById st (sub token'),
                        data (EnvironmentService_getById st environmentId')) of
                    (Some user, Some environment) \<Rightarrow>
                      TokenStorageService_createAuthTokens st user environment
                  | _ \<Rightarrow> failed StatusCodes.Unauthorized ErrorMessages.Unauthorized))
      else failed StatusCodes.Unauthorized ErrorMessages.Unauthorized)"

text \<open>
  Modelled from the spec: \<^verbatim>\<open>AuthService.generateResetPasswordToken\<close> is outside the source
  tree; the invitation flow mints a \<^verbatim>\<open>reset-password\<close> token as follow-up credential, and
  prior tokens of the same kind are deleted before a new one is issued.
\<close>

definition AuthService_generateResetPasswordToken ::
  "state \<Rightarrow> nat \<Rightarrow> nat option \<Rightarrow> TokenStorage DataReturn \<times> state" where
  "AuthService_generateResetPasswordToken st userId' environmentId' =
     TokenStorageService_create
       (TokenStorageService_deleteMany st TokenTypes.ResetPassword userId')
       userId' TokenTypes.ResetPassword 30 environmentId'"

text \<open>
  Modelled from the spec: \<^verbatim>\<open>AuthService.generateMagicLoginToken\<close> is outside the source
  tree; the invitation flow mints a \<^verbatim>\<open>magic-login\<close> token as follow-up credential, and
  prior tokens of the same kind are deleted before a new one is issued.
\<close>

definition AuthService_generateMagicLoginToken ::
  "state \<Rightarrow> nat \<Rightarrow> nat option \<Rightarrow> TokenStorage DataReturn \<times> state" where
  "AuthService_generateMagicLoginToken st userId' environmentId' =
     TokenStorageService_create
       (TokenStorageService_deleteMany st TokenTypes.MagicLogin userId')
       userId' TokenTypes.MagicLogin 30 environmentId'"

text \<open>
  The three operations below are called by the controller but are not in the
  \<^verbatim>\<open>UserService\<close> of the source tree. They look a user up by its id within one environment.
\<close>

definition inEnvironment :: "nat option \<Rightarrow> nat option \<Rightarrow> User \<Rightarrow> bool" where
  "inEnvironment userId' environmentId' u =
     (userId' = Some (User.id' u) \<and> environmentId' \<noteq> None \<and> User.environmentId u = environmentId')"

text \<open>
  Modelled from the spec: \<^verbatim>\<open>UserService.updatePassword\<close> is outside the source tree;
  \<^verbatim>\<open>UserDirectory.updatePassword\<close> stores the hash of the new password for a user of the
  tenant; cross-tenant lookups fail closed, and a user that is absent is \<^verbatim>\<open>NotFound\<close>.
\<close>

definition UserService_updatePassword ::
  "state \<Rightarrow> nat option \<Rightarrow> nat \<Rightarrow> string \<Rightarrow> User DataReturn \<times> state" where
  "UserService_updatePassword st userId' environmentId' password' =
     (case find (inEnvironment userId' (Some environmentId')) (users st) of
        None \<Rightarrow> (failed StatusCodes.NotFound ErrorMessages.UserNotFound, st)
      | Some u \<Rightarrow>
          (ok (u\<lparr>User.password := None\<rparr>),
           st\<lparr>users := map (\<lambda>v. if inEnvironment userId' (Some environmentId') v
                                 then v\<lparr>User.password := Some (Hash password')\<rparr> else v)
                            (users st)\<rparr>))"

text \<open>
  Modelled from the spec: \<^verbatim>\<open>UserService.updateEmailConfirmation\<close> is outside the source
  tree; \<^verbatim>\<open>UserDirectory.setEmailConfirmed\<close> marks the user's \<^verbatim>\<open>email-confirmed\<close> flag;
  a user that is absent is \<^verbatim>\<open>NotFound\<close>.
\<close>

definition UserService_updateEmailConfirmation ::
  "state \<Rightarrow> nat option \<Rightarrow> nat option \<Rightarrow> User DataReturn \<times> state" where
  "UserService_updateEmailConfirmation st userId' environmentId' =
     (case find (inEnvironment userId' environmentId') (users st) of
        None \<Rightarrow> (failed StatusCodes.NotFound ErrorMessages.UserNotFound, st)
      | Some u \<Rightarrow>
          (ok (u\<lparr>User.password := None, emailConfirmed := True\<rparr>),
           st\<lparr>users := map (\<lambda>v. if inEnvironment userId' environmentId' v
                                 then v\<lparr>emailConfirmed := True\<rparr> else v)
                            (users st)\<rparr>))"

text \<open>
  Modelled from the spec: \<^verbatim>\<open>UserService.sendConfirmationEmail\<close> is outside the source
  tree; when the record still resolves to a valid user, the flow re-issues a fresh
  confirmation email: prior tokens of the kind are deleted, a new one is stored and sent.
\<close>

definition UserService_sendConfirmationEmail ::
  "state \<Rightarrow> nat option \<Rightarrow> nat option \<Rightarrow> User DataReturn \<times> state" where
  "UserService_sendConfirmationEmail st userId' environmentId' =
     (case environmentId' of
        None \<Rightarrow> (failed StatusCodes.NotFound ErrorMessages.UserNotFound, st)
      | Some e \<Rightarrow>
          (case find (inEnvironment userId' (Some e)) (users st) of
             None \<Rightarrow> (failed StatusCodes.NotFound ErrorMessages.UserNotFound, st)
           | Some u \<Rightarrow>
               (let st1 = TokenStorageService_deleteMany st TokenTypes.ConfirmEmail (User.id' u);
                    (tokenR, st2) = TokenStorageService_create st1 (User.id' u)
                                      TokenTypes.ConfirmEmail 300 (Some e)
                in (ok (u\<lparr>User.password := None\<rparr>),
                    EmailService_send st2
                      \<lparr>to = User.email u, emailTemplateType = EmailTemplates.ConfirmEmail,
                       Email.environmentId = e, userId = Some (User.id' u),
                       emailToken = map_option token (data tokenR), scheduledAt = None\<rparr>))))"

section \<open>AuthController, as in \<^verbatim>\<open>src/unnamed/part_000\<close>\<close>

text \<open>
  A handler returns what it throws (\<open>Inl\<close>) or what it returns (\<open>Inr\<close>), and the state
  it leaves: a handler can throw after it has written. Reading a property of
  \<^verbatim>\<open>undefined\<close> is a TypeError, reported as an internal error without a message.
  The members of a \<^verbatim>\<open>Promise.all\<close> are run in the order of the array.
\<close>

definition falsy :: "nat option \<Rightarrow> bool" where
  "falsy n = (n = None \<or> n = Some 0)"

definition signUp ::
  "state \<Rightarrow> SignUpPayload \<Rightarrow> Request \<Rightarrow> (HttpException + AuthTokens option) \<times> state" where
  "signUp st payload req =
     (case data (EnvironmentService_getByPublicKeyFromRequest st req) of
        None \<Rightarrow> (Inl (StatusCodes.Unauthorized, Message ErrorMessages.Unauthorized), st)
      | Some environment \<Rightarrow>
          if data (EnvironmentDataService_get_enableSignUp st (Environment.id' environment))
               \<noteq> Some True
          then (Inl (StatusCodes.Forbidden, Message ErrorMessages.Forbidden), st)
          else
            (let (userR, st1) =
                   create st \<lparr>CreatePayload.fullName = SignUpPayload.fullName payload,
                              CreatePayload.email = SignUpPayload.email payload,
                              CreatePayload.password = SignUpPayload.password payload,
                              CreatePayload.environmentId = Environment.id' environment\<rparr>
             in if error userR \<noteq> None then (Inl (exceptionsMapper userR), st1)
                else
                  (case data userR of
                     None \<Rightarrow> (Inl (StatusCodes.Internal, NoBody), st1)
                   | Some user \<Rightarrow>
                       (let (tokenR, st2) =
                              TokenStorageService_create st1 (User.id' user)
                                (if truthy (SignUpPayload.password payload)
                                 then TokenTypes.ConfirmEmail else TokenTypes.MagicLogin)
                                (if truthy (SignUpPayload.password payload) then 300 else 30)
                                (Some (Environment.id' environment))
                        in case data tokenR of
                             None \<Rightarrow> (Inl (StatusCodes.Internal, NoBody), st2)
                           | Some tokenRow \<Rightarrow>
                               if error tokenR \<noteq> None then (Inl (exceptionsMapper tokenR), st2)
                               else if truthy (SignUpPayload.password payload)
                               then
                                 (let tokens = data (TokenStorageService_createAuthTokens st2 user environment);
                                      st3 = EmailService_send st2
                                              \<lparr>to = User.email user,
                                               emailTemplateType = EmailTemplates.ConfirmEmail,
                                               Email.environmentId = Environment.id' environment,
                                               userId = Some (User.id' user),
                                               emailToken = Some (token tokenRow), scheduledAt = None\<rparr>;
                                      st4 = EmailService_send st3
                                              \<lparr>to = User.email user,
                                               emailTemplateType = EmailTemplates.Welcome,
                                               Email.environmentId = Environment.id' environment,
                                               userId = Some (User.id' user),
                                               emailToken = None, scheduledAt = Some (now st + 5)\<rparr>
                                  in (Inr tokens, st4))
                               else
                                 (let st3 = EmailService_send st2
                                              \<lparr>to = User.email user,
                                               emailTemplateType = EmailTemplates.MagicLink,
                                               Email.environmentId = Environment.id' environment,
                                               userId = Some (User.id' user),
                                               emailToken = Some (token tokenRow), scheduledAt = None\<rparr>;
                                      st4 = EmailService_send st3
                                              \<lparr>to = User.email user,
                                               emailTemplateType = EmailTemplates.Welcome,
                                               Email.environmentId = Environment.id' environment,
                                               userId = Some (User.id' user),
                                               emailToken = None, scheduledAt = Some (now st + 5)\<rparr>
                                  in (Inr None, st4))))))"

definition reAuthenticateFromRefreshToken ::
  "state \<Rightarrow> Session \<Rightarrow> Request \<Rightarrow> (HttpException + AuthTokens DataReturn) \<times> state" where
  "reAuthenticateFromRefreshToken st token' req =
     (let envR = (case envIdHeader req of
                    None \<Rightarrow> failed StatusCodes.NotFound ErrorMessages.EnvironmentNotFound
                  | Some environmentId' \<Rightarrow> EnvironmentService_getById st environmentId')
      in if error envR \<noteq> None then (Inl (exceptionsMapper envR), st)
         else
           (case data envR of
              None \<Rightarrow> (Inl (StatusCodes.Internal, NoBody), st)
            | Some environment \<Rightarrow>
                if falsy (refreshTokenExpiration environment)
                then (Inl (StatusCodes.Unauthorized, NoBody), st)
                else
                  (let data' = AuthService_reAuthenticateFromRefreshToken st token'
                                 (Environment.id' environment)
                   in if error data' \<noteq> None then (Inl (exceptionsMapper data'), st)
                      else (Inr data', st))))"

definition requestResetPassword ::
  "state \<Rightarrow> Request \<Rightarrow> string \<Rightarrow> (HttpException + unit) \<times> state" where
  "requestResetPassword st req payload_email =
     (case data (EnvironmentService_getByPublicKeyFromRequest st req) of
        None \<Rightarrow> (Inl (StatusCodes.Unauthorized, Message ErrorMessages.Unauthorized), st)
      | Some environment \<Rightarrow>
          (case getByEmail st payload_email (Environment.id' environment) of
             None \<Rightarrow> (Inr (), st)
           | Some user \<Rightarrow>
               if active user
               then
                 (let st1 = TokenStorageService_deleteMany st TokenTypes.ResetPassword (User.id' user);
                      (tokenR, st2) =
                        TokenStorageService_create st1 (User.id' user) TokenTypes.ResetPassword 30
                          (Some (Environment.id' environment))
                  in if error tokenR \<noteq> None then (Inl (exceptionsMapper tokenR), st2)
                     else
                       (case data tokenR of
                          None \<Rightarrow> (Inl (StatusCodes.Internal, NoBody), st2)
                        | Some tokenRow \<Rightarrow>
                            (Inr (),
                             EmailService_send st2
                               \<lparr>to = User.email user,
                                emailTemplateType = EmailTemplates.ForgotPassword,
                                Email.environmentId = Environment.id' environment,
                                userId = Some (User.id' user),
                                emailToken = Some (token tokenRow), scheduledAt = None\<rparr>)))
               else (Inr (), st)))"

definition updateTokenResetPassword ::
  "state \<Rightarrow> Request \<Rightarrow> nat \<Rightarrow> string \<Rightarrow> (HttpException + unit) \<times> state" where
  "updateTokenResetPassword st req token' payload_password =
     (case data (EnvironmentService_getByPublicKeyFromRequest st req) of
        None \<Rightarrow> (Inl (StatusCodes.Unauthorized, Message ErrorMessages.Unauthorized), st)
      | Some environment \<Rightarrow>
          (let tokenValidation =
                 AuthService_validateUserTokenExpiration st token' TokenTypes.ResetPassword
           in if statusCode tokenValidation \<noteq> None
              then (Inl (exceptionsMapper tokenValidation), st)
              else
                (let st1 = TokenStorageService_delete st token'
                 in case data tokenValidation of
                      None \<Rightarrow> (Inl (StatusCodes.Internal, NoBody), st1)
                    | Some tokenRow \<Rightarrow>
                        (let (updatePassword, st2) =
                               UserService_updatePassword st1 (relationId tokenRow)
                                 (Environment.id' environment) payload_password
                         in if statusCode updatePassword \<noteq> None
                            then (Inl (exceptionsMapper updatePassword), st2)
                            else (Inr (), st2)))))"

text \<open>The JSON body of a successful \<^verbatim>\<open>GET /auth/confirm-email/:token\<close>.\<close>

datatype ConfirmEmailResponse =
  Empty
  | FollowUp (tokenType: TokenTypes) (followUpToken: "nat option") (followUpEmail: "string option")

text \<open>
  \<^verbatim>\<open>confirmEmail\<close> in two parts: the validation with its retry (the first two
  statements of the handler) and the rest of the handler, which consumes the validation.
\<close>

definition confirmEmail_tokenValidation :: "state \<Rightarrow> nat \<Rightarrow> TokenStorage DataReturn" where
  "confirmEmail_tokenValidation st token' =
     (let tokenValidation =
            AuthService_validateUserTokenExpiration st token' TokenTypes.ConfirmEmail
      in if statusCode tokenValidation = Some StatusCodes.NotFound
         then AuthService_validateUserTokenExpiration st token' TokenTypes.InviteUser
         else tokenValidation)"

definition confirmEmail_flow ::
  "state \<Rightarrow> nat \<Rightarrow> TokenStorage DataReturn
     \<Rightarrow> (HttpException + ConfirmEmailResponse) \<times> state" where
  "confirmEmail_flow st token' tokenValidation =
     (if statusCode tokenValidation \<noteq> None
         then
           (case data tokenValidation of
              None \<Rightarrow> (Inl (exceptionsMapper tokenValidation), st)
            | Some tokenRow \<Rightarrow>
                if type tokenRow = TokenTypes.ConfirmEmail \<and> relationId tokenRow \<noteq> None
                then
                  (let (emailSent, st1) =
                         UserService_sendConfirmationEmail st (relationId tokenRow)
                           (TokenStorage.environmentId tokenRow);
                       st2 = TokenStorageService_delete st1 token'
                   in if data emailSent \<noteq> None
                      then (Inl (StatusCodes.NotAcceptable, EmailResent), st2)
                      else (Inl (exceptionsMapper tokenValidation), st2))
                else (Inl (exceptionsMapper tokenValidation), st))
         else
           (case data tokenValidation of
              None \<Rightarrow> (Inl (StatusCodes.Internal, NoBody), st)
            | Some tokenRow \<Rightarrow>
                (let userId' = relationId tokenRow;
                     environmentId' = TokenStorage.environmentId tokenRow;
                     (updateEmailConfirmation, st1) =
                       UserService_updateEmailConfirmation st userId' environmentId';
                     st2 = TokenStorageService_delete st1 token'
                 in if statusCode updateEmailConfirmation \<noteq> None
                    then (Inl (exceptionsMapper updateEmailConfirmation), st2)
                    else
                      (let user = (case userId' of None \<Rightarrow> None | Some i \<Rightarrow> getById st2 i);
                           environment =
                             (case environmentId' of
                                None \<Rightarrow> None
                              | Some e \<Rightarrow> data (EnvironmentService_getById st2 e))
                       in if type tokenRow = TokenTypes.InviteUser
                          then
                            (case user of
                               None \<Rightarrow> (Inl (StatusCodes.Internal, NoBody), st2)
                             | Some user \<Rightarrow>
                                 if lastSignIn user = None
                                 then
                                   (case environment of
                                      None \<Rightarrow> (Inl (StatusCodes.Internal, NoBody), st2)
                                    | Some environment \<Rightarrow>
                                        if authProvider environment = Some AuthProviders.EmailAndPassword
                                        then
                                          (let (resetPasswordToken, st3) =
                                                 AuthService_generateResetPasswordToken st2
                                                   (User.id' user) environmentId'
                                           in if statusCode resetPasswordToken \<noteq> None
                                              then (Inl (exceptionsMapper resetPasswordToken), st3)
                                              else
                                                (Inr (FollowUp TokenTypes.ResetPassword
                                                        (map_option token (data resetPasswordToken))
                                                        (Some (User.email user))), st3))
                                        else if authProvider environment = Some AuthProviders.MagicLogin
                                        then
                                          (let (magicLoginToken, st3) =
                                                 AuthService_generateMagicLoginToken st2
                                                   (User.id' user) environmentId'
                                           in if statusCode magicLoginToken \<noteq> None
                                              then (Inl (exceptionsMapper magicLoginToken), st3)
                                              else
                                                (Inr (FollowUp TokenTypes.MagicLogin
                                                        (map_option token (data magicLoginToken))
                                                        None), st3))
                                        else (Inl (StatusCodes.Internal,
                                                   Message ErrorMessages.InternalError), st2))
                                 else (Inr Empty, st2))
                          else (Inr Empty, st2)))))"

definition confirmEmail ::
  "state \<Rightarrow> nat \<Rightarrow> (HttpException + ConfirmEmailResponse) \<times> state" where
  "confirmEmail st token' = confirmEmail_flow st token' (confirmEmail_tokenValidation st token')"

section \<open>AuthController, as in \<^verbatim>\<open>apps/auth-services/src/modules/auth/controllers/auth.controller.ts\<close>\<close>

text \<open>
  The second copy of the controller in the source tree. Its handlers carry the suffix
  \<open>_authServices\<close>. It creates tokens without an environment and does not read the
  environment's sign-up switch. The project it looks up serves only the names and URLs of
  the email templates and is not modelled.
\<close>

definition signUp_authServices ::
  "state \<Rightarrow> SignUpPayload \<Rightarrow> Request \<Rightarrow> (HttpException + AuthTokens option) \<times> state" where
  "signUp_authServices st payload req =
     (case data (EnvironmentService_getByPublicKeyFromRequest st req) of
        None \<Rightarrow> (Inl (StatusCodes.Unauthorized, Message ErrorMessages.Unauthorized), st)
      | Some environment \<Rightarrow>
          (let (userR, st1) =
                 create st \<lparr>CreatePayload.fullName = SignUpPayload.fullName payload,
                            CreatePayload.email = SignUpPayload.email payload,
                            CreatePayload.password = SignUpPayload.password payload,
                            CreatePayload.environmentId = Environment.id' environment\<rparr>
           in if error userR \<noteq> None then (Inl (exceptionsMapper userR), st1)
              else
                (case data userR of
                   None \<Rightarrow> (Inl (StatusCodes.Internal, NoBody), st1)
                 | Some user \<Rightarrow>
                     (let (tokenR, st2) =
                            TokenStorageService_create st1 (User.id' user)
                              (if truthy (SignUpPayload.password payload)
                               then TokenTypes.ConfirmEmail else TokenTypes.MagicLogin)
                              (if truthy (SignUpPayload.password payload) then 1440 else 30)
                              None
                      in case data tokenR of
                           None \<Rightarrow> (Inl (StatusCodes.Internal, NoBody), st2)
                         | Some tokenRow \<Rightarrow>
                             if error tokenR \<noteq> None then (Inl (exceptionsMapper tokenR), st2)
                             else if truthy (SignUpPayload.password payload)
                             then
                               (let st3 = EmailService_send st2
                                            \<lparr>to = User.email user,
                                             emailTemplateType = EmailTemplates.ConfirmEmail,
                                             Email.environmentId = Environment.id' environment,
                                             userId = None,
                                             emailToken = Some (token tokenRow), scheduledAt = None\<rparr>;
                                    tokens = data (TokenStorageService_createAuthTokens st3 user environment)
                                in (Inr tokens, st3))
                             else
                               (Inr None,
                                EmailService_send st2
                                  \<lparr>to = User.email user,
                                   emailTemplateType = EmailTemplates.MagicLink,
                                   Email.environmentId = Environment.id' environment,
                                   userId = None,
                                   emailToken = Some (token tokenRow), scheduledAt = None\<rparr>)))))"

definition reAuthenticateFromRefreshToken_authServices ::
  "state \<Rightarrow> Session \<Rightarrow> Request \<Rightarrow> (HttpException + AuthTokens DataReturn) \<times> state" where
  "reAuthenticateFromRefreshToken_authServices st token' req =
     (case authorization req of
        None \<Rightarrow> (Inl (StatusCodes.Unauthorized, Message ErrorMessages.Unauthorized), st)
      | Some session \<Rightarrow>
          (let envR = EnvironmentService_getById st (sessionEnvironmentId session)
           in if error envR \<noteq> None then (Inl (exceptionsMapper envR), st)
              else
                (case data envR of
                   None \<Rightarrow> (Inl (StatusCodes.Internal, NoBody), st)
                 | Some environment \<Rightarrow>
                     (Inr (AuthService_reAuthenticateFromRefreshToken st token'
                             (Environment.id' environment)), st))))"

definition requestResetPassword_authServices ::
  "state \<Rightarrow> Request \<Rightarrow> string \<Rightarrow> (HttpException + unit) \<times> state" where
  "requestResetPassword_authServices st req payload_email =
     (case data (EnvironmentService_getByPublicKeyFromRequest st req) of
        None \<Rightarrow> (Inl (StatusCodes.Unauthorized, Message ErrorMessages.Unauthorized), st)
      | Some environment \<Rightarrow>
          (case getByEmail st payload_email (Environment.id' environment) of
             None \<Rightarrow> (Inl (StatusCodes.NotFound, Message ErrorMessages.UserNotFound), st)
           | Some user \<Rightarrow>
               (let st1 = TokenStorageService_deleteMany st TokenTypes.ResetPassword (User.id' user);
                    (tokenR, st2) =
                      TokenStorageService_create st1 (User.id' user) TokenTypes.ResetPassword 30 None
                in if error tokenR \<noteq> None then (Inl (exceptionsMapper tokenR), st2)
                   else
                     (case data tokenR of
                        None \<Rightarrow> (Inl (StatusCodes.Internal, NoBody), st2)
                      | Some tokenRow \<Rightarrow>
                          (Inr (),
                           EmailService_send st2
                             \<lparr>to = User.email user,
                              emailTemplateType = EmailTemplates.ForgotPassword,
                              Email.environmentId = Environment.id' environment,
                              userId = None,
                              emailToken = Some (token tokenRow), scheduledAt = None\<rparr>)))))"

definition updateTokenResetPassword_authServices ::
  "state \<Rightarrow> Request \<Rightarrow> nat \<Rightarrow> string \<Rightarrow> (HttpException + unit) \<times> state" where
  "updateTokenResetPassword_authServices st req token' payload_password =
     (case data (EnvironmentService_getByPublicKeyFromRequest st req) of
        None \<Rightarrow> (Inl (StatusCodes.Unauthorized, Message ErrorMessages.Unauthorized), st)
      | Some environment \<Rightarrow>
          (let tokenValidation =
                 AuthService_validateUserTokenExpiration st token' TokenTypes.ResetPassword
           in if statusCode tokenValidation \<noteq> None
              then (Inl (exceptionsMapper tokenValidation), st)
              else
                (let st1 = TokenStorageService_delete st token'
                 in case data tokenValidation of
                      None \<Rightarrow> (Inl (StatusCodes.Internal, NoBody), st1)
                    | Some tokenRow \<Rightarrow>
                        (let (updatePassword, st2) =
                               UserService_updatePassword st1 (relationId tokenRow)
                                 (Environment.id' environment) payload_password
                         in (Inr (), st2)))))"

section \<open>Well-formed states\<close>

text \<open>
  Token values are unique in the store, and every stored token was issued before: its value
  is below the next value to issue.
\<close>

definition issued :: "state \<Rightarrow> bool" where
  "issued st =
     (distinct (map token (tokenStorage st))
      \<and> list_all (\<lambda>r. token r < nextToken st) (tokenStorage st))"

text \<open>
  \<open>later st st'\<close>: \<open>st'\<close> is reached from \<open>st\<close> by operations of the token store and by
  changes that leave the token store alone. Every handler above moves to a later state.
\<close>

inductive later :: "state \<Rightarrow> state \<Rightarrow> bool" where
  later_refl: "later st st"
| later_create: "later st st1 \<Longrightarrow> later st (snd (TokenStorageService_create st1 u ty ttl e))"
| later_delete: "later st st1 \<Longrightarrow> later st (TokenStorageService_delete st1 t)"
| later_deleteMany: "later st st1 \<Longrightarrow> later st (TokenStorageService_deleteMany st1 ty u)"
| later_other:
    "later st st1 \<Longrightarrow> tokenStorage st2 = tokenStorage st1 \<Longrightarrow> nextToken st2 = nextToken st1
       \<Longrightarrow> later st st2"

section \<open>Rows and states the handlers produce\<close>

text \<open>The outcome of the token validator for a record past its expiry.\<close>

definition expired :: "TokenStorage \<Rightarrow> TokenStorage DataReturn" where
  "expired row = \<lparr>data = Some row, statusCode = Some StatusCodes.Expired,
                   error = Some ErrorMessages.TokenExpired, code = None\<rparr>"

text \<open>A reset-password token of one user.\<close>

definition ownedResetToken :: "nat \<Rightarrow> TokenStorage \<Rightarrow> bool" where
  "ownedResetToken userId' r = (type r = TokenTypes.ResetPassword \<and> relationId r = Some userId')"

text \<open>The row \<^verbatim>\<open>requestResetPassword\<close> stores.\<close>

definition resetRow :: "state \<Rightarrow> User \<Rightarrow> nat option \<Rightarrow> TokenStorage" where
  "resetRow st user environmentId' =
     \<lparr>token = nextToken st, type = TokenTypes.ResetPassword, relationId = Some (User.id' user),
      TokenStorage.environmentId = environmentId', expires = now st + 30\<rparr>"


text \<open>The row of a follow-up credential of the invitation flow.\<close>

definition followUpRow :: "state \<Rightarrow> TokenTypes \<Rightarrow> nat \<Rightarrow> nat option \<Rightarrow> TokenStorage" where
  "followUpRow st type' userId' environmentId' =
     \<lparr>token = nextToken st, type = type', relationId = Some userId',
      TokenStorage.environmentId = environmentId', expires = now st + 30\<rparr>"

text \<open>A user row after its email has been confirmed within one environment.\<close>

definition confirmed :: "nat option \<Rightarrow> nat option \<Rightarrow> User \<Rightarrow> User" where
  "confirmed userId' environmentId' v =
     (if inEnvironment userId' environmentId' v then v\<lparr>emailConfirmed := True\<rparr> else v)"

text \<open>The state of \<^verbatim>\<open>confirmEmail\<close> once the email is confirmed and the token deleted.\<close>

definition afterConfirmation :: "state \<Rightarrow> nat \<Rightarrow> nat option \<Rightarrow> nat option \<Rightarrow> state" where
  "afterConfirmation st tok userId' environmentId' =
     TokenStorageService_delete
       (st\<lparr>users := map (confirmed userId' environmentId') (users st)\<rparr>) tok"





section \<open>Example states\<close>

text \<open>
  Two environments: one with passwords and refresh tokens, one with magic links and
  refresh disabled. Ann, Bob and Eve are users of the first; Bob was invited and has not
  signed in, Eve is inactive. Carl is a user of the second. The clock stands at 100.
\<close>

definition tenant :: Environment where
  "tenant = \<lparr>Environment.id' = 1, publicKey = ''pk-1'',
             authProvider = Some AuthProviders.EmailAndPassword,
             tokenExpiration = 60, refreshTokenExpiration = Some 1440, enableSignUp = True\<rparr>"

definition tenantWithoutRefresh :: Environment where
  "tenantWithoutRefresh =
     \<lparr>Environment.id' = 2, publicKey = ''pk-2'', authProvider = Some AuthProviders.MagicLogin,
      tokenExpiration = 60, refreshTokenExpiration = None, enableSignUp = True\<rparr>"

definition ann :: User where
  "ann = \<lparr>User.id' = 1, User.email = ''a@x.com'', User.fullName = ''Ann Lee'',
          User.password = Some (Hash ''old''), thonLabsUser = False, emailConfirmed = False,
          active = True, lastSignIn = Some 90, User.environmentId = Some 1\<rparr>"

definition bob :: User where
  "bob = \<lparr>User.id' = 2, User.email = ''b@x.com'', User.fullName = ''Bob Ray'',
          User.password = None, thonLabsUser = False, emailConfirmed = False,
          active = True, lastSignIn = None, User.environmentId = Some 1\<rparr>"

definition carl :: User where
  "carl = \<lparr>User.id' = 3, User.email = ''c@x.com'', User.fullName = ''Carl Poe'',
           User.password = None, thonLabsUser = False, emailConfirmed = True,
           active = True, lastSignIn = Some 80, User.environmentId = Some 2\<rparr>"

definition eve :: User where
  "eve = \<lparr>User.id' = 5, User.email = ''e@x.com'', User.fullName = ''Eve Moss'',
          User.password = Some (Hash ''old''), thonLabsUser = False, emailConfirmed = True,
          active = False, lastSignIn = Some 70, User.environmentId = Some 1\<rparr>"

definition owner :: User where
  "owner = \<lparr>User.id' = 4, User.email = ''gustavo@gsales.io'', User.fullName = ''Gustavo Owner'',
            User.password = Some (Hash ''secret''), thonLabsUser = True, emailConfirmed = True,
            active = True, lastSignIn = None, User.environmentId = Some 1\<rparr>"

definition storedToken :: "nat \<Rightarrow> TokenTypes \<Rightarrow> nat \<Rightarrow> nat \<Rightarrow> TokenStorage" where
  "storedToken value' type' userId' expires' =
     \<lparr>token = value', type = type', relationId = Some userId',
      TokenStorage.environmentId = Some 1, expires = expires'\<rparr>"

definition emptyState :: state where
  "emptyState = \<lparr>users = [], environments = [tenant, tenantWithoutRefresh], tokenStorage = [],
                 emails = [], now = 100, nextId = 6, nextToken = 10, databaseUp = True\<rparr>"

definition ownerState :: state where
  "ownerState = emptyState\<lparr>users := [owner]\<rparr>"

definition busyState :: state where
  "busyState =
     emptyState
       \<lparr>users := [ann, bob, carl, eve],
        tokenStorage :=
          [storedToken 3 TokenTypes.ResetPassword 1 120,
           storedToken 4 TokenTypes.ResetPassword 1 125,
           storedToken 5 TokenTypes.ConfirmEmail 1 50,
           storedToken 6 TokenTypes.InviteUser 2 400,
           storedToken 7 TokenTypes.ConfirmEmail 8 50]\<rparr>"

definition request :: Request where
  "request = \<lparr>publicKeyHeader = Some ''pk-1'', envIdHeader = Some 1, authorization = None\<rparr>"

definition carlSession :: "SessionKind \<Rightarrow> Session" where
  "carlSession k = \<lparr>sub = 3, sessionEnvironmentId = 2, kind = k, iat = 80, exp = 2000\<rparr>"

definition requestWithoutRefresh :: Request where
  "requestWithoutRefresh =
     \<lparr>publicKeyHeader = Some ''pk-2'', envIdHeader = Some 2,
      authorization = Some (carlSession Access)\<rparr>"

definition newcomer :: SignUpPayload where
  "newcomer = \<lparr>SignUpPayload.fullName = ''Dana Roe'', SignUpPayload.email = ''d@x.com'',
               SignUpPayload.password = Some ''p''\<rparr>"

lemmas example_defs =
  tenant_def tenantWithoutRefresh_def ann_def bob_def carl_def eve_def owner_def storedToken_def
  emptyState_def ownerState_def busyState_def request_def carlSession_def
  requestWithoutRefresh_def newcomer_def

lemmas service_defs =
  EnvironmentService_getById_def EnvironmentService_getByPublicKeyFromRequest_def
  EnvironmentDataService_get_enableSignUp_def getOurByEmail_def getByEmail_def getById_def
  databaseService_user_create_def TokenStorageService_create_def TokenStorageService_delete_def
  TokenStorageService_deleteMany_def TokenStorageService_createAuthTokens_def
  EmailService_send_def AuthService_validateUserTokenExpiration_def
  AuthService_reAuthenticateFromRefreshToken_def AuthService_generateResetPasswordToken_def
  AuthService_generateMagicLoginToken_def inEnvironment_def UserService_updatePassword_def
  UserService_updateEmailConfirmation_def UserService_sendConfirmationEmail_def
  ok_def failed_def exceptionsMapper_def truthy_def falsy_def

section \<open>The token store\<close>

lemma find_token_None_iff:
  "find (\<lambda>r. token r = t) xs = None \<longleftrightarrow> t \<notin> token ` set xs"
  by (auto simp: find_None_iff)

lemma validate_absent:
  "t \<notin> token ` set (tokenStorage st) \<Longrightarrow>
     AuthService_validateUserTokenExpiration st t ty
       = failed StatusCodes.NotFound ErrorMessages.TokenNotFound"
  by (simp add: AuthService_validateUserTokenExpiration_def find_token_None_iff[symmetric])

lemma validate_live_found:
  assumes "statusCode (AuthService_validateUserTokenExpiration st t ty) = None"
  shows "t \<in> token ` set (tokenStorage st)"
    and "\<exists>row. data (AuthService_validateUserTokenExpiration st t ty) = Some row"
proof -
  obtain r where r: "find (\<lambda>r. token r = t) (tokenStorage st) = Some r"
    using assms
    by (cases "find (\<lambda>r. token r = t) (tokenStorage st)")
       (auto simp: AuthService_validateUserTokenExpiration_def failed_def)
  then have "r \<in> set (tokenStorage st)" "token r = t"
    by (auto simp: find_Some_iff)
  then show "t \<in> token ` set (tokenStorage st)" by auto
  show "\<exists>row. data (AuthService_validateUserTokenExpiration st t ty) = Some row"
    using assms r
    by (auto simp: AuthService_validateUserTokenExpiration_def failed_def ok_def
             split: if_splits)
qed

lemma delete_removes: "t \<notin> token ` set (tokenStorage (TokenStorageService_delete st t))"
  by (auto simp: TokenStorageService_delete_def)

lemma stored_token_unique:
  "distinct (map token xs) \<Longrightarrow> old \<in> set xs \<Longrightarrow> r \<in> set xs \<Longrightarrow> token r = token old
     \<Longrightarrow> r = old"
  by (simp add: distinct_map inj_on_def)

lemma issued_below: "issued st \<Longrightarrow> r \<in> set (tokenStorage st) \<Longrightarrow> token r < nextToken st"
  by (auto simp: issued_def list_all_iff)

lemma find_map_same:
  "(\<And>x. P (f x) = P x) \<Longrightarrow> find P (map f xs) = map_option f (find P xs)"
  by (induction xs) auto

subsection \<open>Later states\<close>

lemma later_send: "later st st1 \<Longrightarrow> later st (EmailService_send st1 e)"
  by (erule later_other) (simp_all add: EmailService_send_def)

lemma later_updatePassword:
  "later st st1 \<Longrightarrow> later st (snd (UserService_updatePassword st1 u e p))"
  by (erule later_other) (simp_all add: UserService_updatePassword_def split: option.splits)

lemma later_updateEmailConfirmation:
  "later st st1 \<Longrightarrow> later st (snd (UserService_updateEmailConfirmation st1 u e))"
  by (erule later_other)
     (simp_all add: UserService_updateEmailConfirmation_def split: option.splits)

lemma later_userCreate: "later st st1 \<Longrightarrow> later st (snd (create st1 p))"
  by (erule later_other)
     (simp_all add: create_def databaseService_user_create_def Let_def split: option.splits)

lemma later_sendConfirmationEmail:
  "later st st1 \<Longrightarrow> later st (snd (UserService_sendConfirmationEmail st1 u e))"
  by (auto simp: UserService_sendConfirmationEmail_def Let_def split_def
           intro!: later_send later_create later_deleteMany split: option.splits)

lemma later_generateResetPasswordToken:
  "later st st1 \<Longrightarrow> later st (snd (AuthService_generateResetPasswordToken st1 u e))"
  by (auto simp: AuthService_generateResetPasswordToken_def intro!: later_create later_deleteMany)

lemma later_generateMagicLoginToken:
  "later st st1 \<Longrightarrow> later st (snd (AuthService_generateMagicLoginToken st1 u e))"
  by (auto simp: AuthService_generateMagicLoginToken_def intro!: later_create later_deleteMany)

lemmas later_steps = later_refl later_send later_create later_delete later_deleteMany
  later_updatePassword later_updateEmailConfirmation later_userCreate
  later_sendConfirmationEmail later_generateResetPasswordToken later_generateMagicLoginToken

lemma later_requestResetPassword: "later st (snd (requestResetPassword st req e))"
  by (auto simp: requestResetPassword_def Let_def split_def intro!: later_steps
           split: option.splits)

lemma later_requestResetPassword_authServices:
  "later st (snd (requestResetPassword_authServices st req e))"
  by (auto simp: requestResetPassword_authServices_def Let_def split_def intro!: later_steps
           split: option.splits)

lemma later_updateTokenResetPassword: "later st (snd (updateTokenResetPassword st req t p))"
  by (auto simp: updateTokenResetPassword_def Let_def split_def intro!: later_steps
           split: option.splits)

lemma later_updateTokenResetPassword_authServices:
  "later st (snd (updateTokenResetPassword_authServices st req t p))"
  by (auto simp: updateTokenResetPassword_authServices_def Let_def split_def
           intro!: later_steps split: option.splits)

lemma later_signUp: "later st (snd (signUp st p req))"
  by (auto simp: signUp_def Let_def split_def intro!: later_steps split: option.splits)

lemma later_signUp_authServices: "later st (snd (signUp_authServices st p req))"
  by (auto simp: signUp_authServices_def Let_def split_def intro!: later_steps
           split: option.splits)

lemma later_reAuthenticateFromRefreshToken:
  "later st (snd (reAuthenticateFromRefreshToken st t req))"
  by (auto simp: reAuthenticateFromRefreshToken_def Let_def intro!: later_steps
           split: option.splits)

lemma later_reAuthenticateFromRefreshToken_authServices:
  "later st (snd (reAuthenticateFromRefreshToken_authServices st t req))"
  by (auto simp: reAuthenticateFromRefreshToken_authServices_def Let_def intro!: later_steps
           split: option.splits)

lemma later_confirmEmail: "later st (snd (confirmEmail st t))"
  by (auto simp: confirmEmail_def confirmEmail_flow_def Let_def split_def intro!: later_steps
           split: option.splits)

text \<open>
  The empty store is well-formed, and every later state of a well-formed state is
  well-formed: a created token takes the next value, above all stored ones.
\<close>

lemma issued_empty: "tokenStorage st = [] \<Longrightarrow> issued st"
  by (simp add: issued_def)

lemma issued_create: "issued st \<Longrightarrow> issued (snd (TokenStorageService_create st u ty ttl e))"
  by (auto simp: issued_def TokenStorageService_create_def Let_def list_all_iff
           intro: less_SucI)

lemma issued_delete: "issued st \<Longrightarrow> issued (TokenStorageService_delete st t)"
  by (auto simp: issued_def TokenStorageService_delete_def list_all_iff distinct_map_filter)

lemma issued_deleteMany: "issued st \<Longrightarrow> issued (TokenStorageService_deleteMany st ty u)"
  by (auto simp: issued_def TokenStorageService_deleteMany_def list_all_iff
                 distinct_map_filter)

lemma later_issued: "later st st' \<Longrightarrow> issued st \<Longrightarrow> issued st'"
  by (induction rule: later.induct)
     (auto simp: issued_create issued_delete issued_deleteMany, simp add: issued_def)

text \<open>A token value that was issued and is gone from the store stays gone.\<close>

lemma later_absent:
  "later st st' \<Longrightarrow> t < nextToken st \<Longrightarrow> t \<notin> token ` set (tokenStorage st)
     \<Longrightarrow> t < nextToken st' \<and> t \<notin> token ` set (tokenStorage st')"
  by (induction rule: later.induct)
     (auto simp: TokenStorageService_create_def TokenStorageService_delete_def
                 TokenStorageService_deleteMany_def Let_def)

section \<open>UserService: what is persisted and what is returned\<close>


text \<open>
  The user \<^verbatim>\<open>create\<close> returns never carries a password, and neither does the owner that
  \<^verbatim>\<open>createOwner\<close> has just created: both branches run \<^verbatim>\<open>delete user.password\<close>.
\<close>

lemma create_returns_no_password:
  "create st payload = (r, st') \<Longrightarrow> data r = Some u \<Longrightarrow> User.password u = None"
  by (auto simp: create_def databaseService_user_create_def ok_def Let_def
           split: if_splits option.splits)

lemma createOwner_new_returns_no_password:
  "getOurByEmail st ''gustavo@gsales.io'' = None \<Longrightarrow> createOwner st p = Some (r, st')
     \<Longrightarrow> data r = Some u \<Longrightarrow> User.password u = None"
  by (auto simp: createOwner_def databaseService_user_create_def ok_def Let_def
           split: if_splits option.splits)

text \<open>
  C10. The users returned by \<^verbatim>\<open>create\<close> and \<^verbatim>\<open>createOwner\<close> are claimed to carry no
  password. When the owner already exists, \<^verbatim>\<open>createOwner\<close> returns the row it has read
  with \<^verbatim>\<open>getOurByEmail\<close>, as it is: in the state where the owner is stored with the hash of
  \<^verbatim>\<open>secret\<close>, the returned user carries that hash.
\<close>

theorem createOwner_existing_owner_returns_hash:
  "createOwner ownerState ''other'' = Some (ok owner, ownerState)
   \<and> User.password owner = Some (Hash ''secret'')"
  by (simp add: createOwner_def getOurByEmail_def example_defs)

text \<open>
  The row \<^verbatim>\<open>create\<close> persists has no environment, whatever \<^verbatim>\<open>payload.environmentId\<close> is;
  \<^verbatim>\<open>setEnvironment\<close>, which \<^verbatim>\<open>signUpOwner\<close> calls after \<^verbatim>\<open>createOwner\<close>, is what scopes
  a user.
\<close>

lemma create_persists_no_environment:
  assumes "create st payload = (r, st')" and "data r = Some u"
  shows "\<exists>row. users st' = users st @ [row] \<and> User.id' row = User.id' u
               \<and> User.environmentId row = None"
  using assms
  by (auto simp: create_def databaseService_user_create_def ok_def Let_def
           split: if_splits option.splits)

lemma setEnvironment_scopes:
  "getById st i = Some u \<Longrightarrow>
     map_option User.environmentId (getById (setEnvironment st i e) i) = Some (Some e)"
proof -
  assume u: "getById st i = Some u"
  then have i: "User.id' u = i"
    by (auto simp: getById_def find_Some_iff)
  have "getById (setEnvironment st i e) i
          = map_option (\<lambda>u. if User.id' u = i then u\<lparr>User.environmentId := Some e\<rparr> else u)
              (getById st i)"
    unfolding getById_def setEnvironment_def by (simp add: find_map_same)
  then show ?thesis by (simp add: u i)
qed

text \<open>
  C9. A user created through signup on an environment is claimed to be persisted with that
  environment's id, so that the duplicate-email check finds it. After a signup on
  environment 1 the persisted user has no environment, the lookup of its email under
  environment 1 finds nobody, and a second signup with the same email is not refused with
  \<^verbatim>\<open>Conflict\<close>: it persists a second user with that email.
\<close>

theorem signUp_persists_user_without_environment:
  "map User.environmentId (users (snd (signUp emptyState newcomer request))) = [None]
   \<and> getByEmail (snd (signUp emptyState newcomer request)) ''d@x.com'' 1 = None
   \<and> fst (signUp (snd (signUp emptyState newcomer request)) newcomer request)
        \<noteq> Inl (StatusCodes.Conflict, Message ErrorMessages.EmailInUse)
   \<and> map User.email
        (users (snd (signUp (snd (signUp emptyState newcomer request)) newcomer request)))
        = [''d@x.com'', ''d@x.com'']"
  by (simp add: signUp_def create_def service_defs example_defs Let_def)

section \<open>Reset password\<close>

subsection \<open>Requesting a reset\<close>

lemma requestResetPassword_issue:
  assumes "data (EnvironmentService_getByPublicKeyFromRequest st req) = Some environment"
      and "getByEmail st e (Environment.id' environment) = Some user" and "active user"
  shows "requestResetPassword st req e =
           (Inr (),
            st\<lparr>tokenStorage :=
                  filter (\<lambda>r. \<not> ownedResetToken (User.id' user) r) (tokenStorage st)
                    @ [resetRow st user (Some (Environment.id' environment))],
                nextToken := Suc (nextToken st),
                emails := emails st @
                  [\<lparr>to = User.email user, emailTemplateType = EmailTemplates.ForgotPassword,
                    Email.environmentId = Environment.id' environment,
                    userId = Some (User.id' user),
                    emailToken = Some (nextToken st), scheduledAt = None\<rparr>]\<rparr>)"
  using assms
  by (simp add: requestResetPassword_def Let_def resetRow_def TokenStorageService_create_def
        TokenStorageService_deleteMany_def EmailService_send_def ok_def ownedResetToken_def)

lemma requestResetPassword_authServices_issue:
  assumes "data (EnvironmentService_getByPublicKeyFromRequest st req) = Some environment"
      and "getByEmail st e (Environment.id' environment) = Some user"
  shows "requestResetPassword_authServices st req e =
           (Inr (),
            st\<lparr>tokenStorage :=
                  filter (\<lambda>r. \<not> ownedResetToken (User.id' user) r) (tokenStorage st)
                    @ [resetRow st user None],
                nextToken := Suc (nextToken st),
                emails := emails st @
                  [\<lparr>to = User.email user, emailTemplateType = EmailTemplates.ForgotPassword,
                    Email.environmentId = Environment.id' environment,
                    userId = None,
                    emailToken = Some (nextToken st), scheduledAt = None\<rparr>]\<rparr>)"
  using assms
  by (simp add: requestResetPassword_authServices_def Let_def resetRow_def
        TokenStorageService_create_def TokenStorageService_deleteMany_def EmailService_send_def
        ok_def ownedResetToken_def)

text \<open>
  The handler of \<^verbatim>\<open>part_000\<close>: with a valid public key it answers with the same empty
  acknowledgment whoever the email belongs to, and for an unknown or inactive user it leaves
  the state as it was: no token, no email.
\<close>

lemma requestResetPassword_silent:
  assumes "data (EnvironmentService_getByPublicKeyFromRequest st req) = Some environment"
      and "getByEmail st e (Environment.id' environment) = None
           \<or> (\<exists>user. getByEmail st e (Environment.id' environment) = Some user \<and> \<not> active user)"
  shows "requestResetPassword st req e = (Inr (), st)"
  using assms by (auto simp: requestResetPassword_def)

lemma requestResetPassword_acknowledges:
  assumes "data (EnvironmentService_getByPublicKeyFromRequest st req) = Some environment"
  shows "fst (requestResetPassword st req e) = Inr ()"
proof (cases "getByEmail st e (Environment.id' environment)")
  case None
  with assms show ?thesis by (simp add: requestResetPassword_silent)
next
  case (Some user)
  with assms show ?thesis
    by (cases "active user")
       (simp_all add: requestResetPassword_issue requestResetPassword_silent)
qed

text \<open>
  C1. With a valid public key the reset-password request is claimed to answer with the
  same acknowledgment whether or not an active user has the email, and to issue no token
  and send no email when the user is absent or inactive. The handler of
  \<^verbatim>\<open>auth.controller.ts\<close> throws \<^verbatim>\<open>NotFound\<close> with the message \<^verbatim>\<open>UserNotFound\<close> for an
  email nobody has, acknowledges Ann's email, and for the inactive Eve stores a token and
  sends the email.
\<close>

theorem requestResetPassword_authServices_reveals_unknown_email:
  "requestResetPassword_authServices busyState request ''nobody@x.com''
     = (Inl (StatusCodes.NotFound, Message ErrorMessages.UserNotFound), busyState)
   \<and> fst (requestResetPassword_authServices busyState request ''a@x.com'') = Inr ()
   \<and> \<not> active eve
   \<and> map emailToken (emails (snd (requestResetPassword_authServices busyState request ''e@x.com'')))
       = [Some 10]"
  by (simp add: requestResetPassword_authServices_def service_defs example_defs Let_def)

lemma requestResetPassword_store:
  assumes "data (EnvironmentService_getByPublicKeyFromRequest st req) = Some environment"
      and "getByEmail st e (Environment.id' environment) = Some user" and "active user"
      and "handler = requestResetPassword \<or> handler = requestResetPassword_authServices"
  shows "\<exists>environmentId'. tokenStorage (snd (handler st req e)) =
            filter (\<lambda>r. \<not> ownedResetToken (User.id' user) r) (tokenStorage st)
              @ [resetRow st user environmentId']"
    and "nextToken (snd (handler st req e)) = Suc (nextToken st)"
    and "fst (handler st req e) = Inr ()"
  using assms(4) requestResetPassword_issue[OF assms(1-3)]
        requestResetPassword_authServices_issue[OF assms(1,2)]
  by auto

text \<open>
  C3. When a reset-password token is requested for a user who is found and active, the
  user's earlier reset-password tokens are deleted before the new one is created: the
  request is acknowledged, every reset-password token the user had validates as
  \<^verbatim>\<open>NotFound\<close> in every later state, whatever kind is expected, and right after the
  request the user has exactly one reset-password token, the new one. This holds for both
  copies of the handler, in a store whose token values are unique and were issued.
\<close>

theorem requestResetPassword_invalidates_previous:
  assumes env: "data (EnvironmentService_getByPublicKeyFromRequest st req) = Some environment"
      and user: "getByEmail st e (Environment.id' environment) = Some user" "active user"
      and wf: "issued st"
      and h: "handler = requestResetPassword \<or> handler = requestResetPassword_authServices"
      and res: "handler st req e = (r, st')"
      and old: "old \<in> set (tokenStorage st)" "ownedResetToken (User.id' user) old"
      and later: "later st' st''"
  shows "r = Inr ()
         \<and> AuthService_validateUserTokenExpiration st'' (token old) ty
             = failed StatusCodes.NotFound ErrorMessages.TokenNotFound
         \<and> (\<exists>new. filter (ownedResetToken (User.id' user)) (tokenStorage st') = [new]
                   \<and> token new = nextToken st)"
proof -
  note store = requestResetPassword_store[OF env user h]
  obtain environmentId' where st': "tokenStorage st' =
        filter (\<lambda>r. \<not> ownedResetToken (User.id' user) r) (tokenStorage st)
          @ [resetRow st user environmentId']"
    using store(1) res by auto
  have next': "nextToken st' = Suc (nextToken st)" and r: "r = Inr ()"
    using store(2,3) res by simp_all
  define row where "row = resetRow st user environmentId'"
  have row: "ownedResetToken (User.id' user) row" "token row = nextToken st"
    by (simp_all add: row_def resetRow_def ownedResetToken_def)
  note st' = st'[folded row_def]
  have lt: "token old < nextToken st"
    using wf old(1) by (rule issued_below)
  have "token old \<notin> token `
          set (filter (\<lambda>r. \<not> ownedResetToken (User.id' user) r) (tokenStorage st))"
  proof
    assume "token old \<in> token `
              set (filter (\<lambda>r. \<not> ownedResetToken (User.id' user) r) (tokenStorage st))"
    then obtain x where x: "x \<in> set (tokenStorage st)" "\<not> ownedResetToken (User.id' user) x"
        "token x = token old" by auto
    have "x = old"
      using stored_token_unique[OF _ old(1) x(1) x(3)] wf by (simp add: issued_def)
    with x(2) old(2) show False by simp
  qed
  with lt row(2) have absent: "token old \<notin> token ` set (tokenStorage st')"
    by (auto simp: st')
  have "token old \<notin> token ` set (tokenStorage st'')"
    using later_absent[OF later _ absent] lt next' by simp
  then have gone: "AuthService_validateUserTokenExpiration st'' (token old) ty
                     = failed StatusCodes.NotFound ErrorMessages.TokenNotFound"
    by (rule validate_absent)
  have one: "filter (ownedResetToken (User.id' user)) (tokenStorage st') = [row]"
    by (simp add: st' row(1) filter_empty_conv)
  from r gone one row(2) show ?thesis by blast
qed

theorem requestResetPassword_invalidates_previous_witness:
  "data (EnvironmentService_getByPublicKeyFromRequest busyState request) = Some tenant
   \<and> getByEmail busyState ''a@x.com'' (Environment.id' tenant) = Some ann \<and> active ann
   \<and> issued busyState
   \<and> storedToken 3 TokenTypes.ResetPassword 1 120 \<in> set (tokenStorage busyState)
   \<and> ownedResetToken (User.id' ann) (storedToken 3 TokenTypes.ResetPassword 1 120)
   \<and> later (snd (requestResetPassword busyState request ''a@x.com''))
         (snd (requestResetPassword (snd (requestResetPassword busyState request ''a@x.com''))
                 request ''a@x.com''))
   \<and> statusCode (AuthService_validateUserTokenExpiration busyState 3 TokenTypes.ResetPassword)
       = None
   \<and> fst (requestResetPassword busyState request ''a@x.com'') = Inr ()
   \<and> AuthService_validateUserTokenExpiration
        (snd (requestResetPassword (snd (requestResetPassword busyState request ''a@x.com''))
                request ''a@x.com''))
        3 TokenTypes.ResetPassword
       = failed StatusCodes.NotFound ErrorMessages.TokenNotFound
   \<and> map token (filter (ownedResetToken 1)
        (tokenStorage (snd (requestResetPassword busyState request ''a@x.com'')))) = [10]"
proof -
  have env: "data (EnvironmentService_getByPublicKeyFromRequest busyState request) = Some tenant"
    by (simp add: service_defs example_defs)
  have user: "getByEmail busyState ''a@x.com'' (Environment.id' tenant) = Some ann"
    by (simp add: service_defs example_defs)
  have act: "active ann" by (simp add: ann_def)
  have wf: "issued busyState" by (simp add: issued_def example_defs)
  have old: "storedToken 3 TokenTypes.ResetPassword 1 120 \<in> set (tokenStorage busyState)"
    by (simp add: example_defs)
  have owned: "ownedResetToken (User.id' ann) (storedToken 3 TokenTypes.ResetPassword 1 120)"
    by (simp add: ownedResetToken_def example_defs)
  have later: "later (snd (requestResetPassword busyState request ''a@x.com''))
         (snd (requestResetPassword (snd (requestResetPassword busyState request ''a@x.com''))
                 request ''a@x.com''))"
    by (rule later_requestResetPassword)
  have live: "statusCode (AuthService_validateUserTokenExpiration busyState 3
                TokenTypes.ResetPassword) = None"
    by (simp add: service_defs example_defs)
  have t: "token (storedToken 3 TokenTypes.ResetPassword 1 120) = 3"
    "User.id' ann = 1" "nextToken busyState = 10"
    by (simp_all add: example_defs)
  note invalidated =
    requestResetPassword_invalidates_previous
      [where ty = TokenTypes.ResetPassword,
       OF env user act wf disjI1[OF refl] surjective_pairing old owned later]
  have a: "fst (requestResetPassword busyState request ''a@x.com'') = Inr ()"
    using invalidated by blast
  have b: "AuthService_validateUserTokenExpiration
        (snd (requestResetPassword (snd (requestResetPassword busyState request ''a@x.com''))
                request ''a@x.com''))
        3 TokenTypes.ResetPassword
       = failed StatusCodes.NotFound ErrorMessages.TokenNotFound"
    using invalidated unfolding t by blast
  have c: "map token (filter (ownedResetToken 1)
        (tokenStorage (snd (requestResetPassword busyState request ''a@x.com'')))) = [10]"
    using invalidated unfolding t by auto
  from env user act wf old owned later live a b c show ?thesis by blast
qed

subsection \<open>Setting the new password\<close>

lemma updatePassword_tokens:
  "tokenStorage (snd (UserService_updatePassword st u e p)) = tokenStorage st"
  "nextToken (snd (UserService_updatePassword st u e p)) = nextToken st"
  by (simp_all add: UserService_updatePassword_def split: option.splits)

lemma updateTokenResetPassword_store:
  assumes "data (EnvironmentService_getByPublicKeyFromRequest st req) = Some environment"
      and "statusCode (AuthService_validateUserTokenExpiration st tok TokenTypes.ResetPassword)
             = None"
      and "handler = updateTokenResetPassword \<or> handler = updateTokenResetPassword_authServices"
  shows "tokenStorage (snd (handler st req tok pw))
           = tokenStorage (TokenStorageService_delete st tok)"
    and "nextToken (snd (handler st req tok pw)) = nextToken st"
proof -
  obtain row where row:
    "data (AuthService_validateUserTokenExpiration st tok TokenTypes.ResetPassword) = Some row"
    using validate_live_found(2)[OF assms(2)] by blast
  have del: "nextToken (TokenStorageService_delete st tok) = nextToken st"
    by (simp add: TokenStorageService_delete_def)
  show "tokenStorage (snd (handler st req tok pw))
           = tokenStorage (TokenStorageService_delete st tok)"
    using assms row
    by (auto simp: updateTokenResetPassword_def updateTokenResetPassword_authServices_def
          Let_def split_def updatePassword_tokens)
  show "nextToken (snd (handler st req tok pw)) = nextToken st"
    using assms row
    by (auto simp: updateTokenResetPassword_def updateTokenResetPassword_authServices_def
          Let_def split_def updatePassword_tokens del)
qed

text \<open>
  C4. When the token of a \<^verbatim>\<open>PATCH\<close> reset-password call validates as live, the call
  deletes it from the token store whether the password update succeeds or fails: whatever
  the handler returns or throws, the token is gone from the store it leaves, and in every
  later state its validation is \<^verbatim>\<open>NotFound\<close>, whatever kind is expected. This holds for
  both copies of the handler, in a store whose token values are unique and were issued.
\<close>

theorem updateTokenResetPassword_single_shot:
  assumes env: "data (EnvironmentService_getByPublicKeyFromRequest st req) = Some environment"
      and live: "statusCode (AuthService_validateUserTokenExpiration st tok
                   TokenTypes.ResetPassword) = None"
      and wf: "issued st"
      and h: "handler = updateTokenResetPassword \<or> handler = updateTokenResetPassword_authServices"
      and res: "handler st req tok pw = (r, st')"
      and later: "later st' st''"
  shows "tok \<notin> token ` set (tokenStorage st')
         \<and> AuthService_validateUserTokenExpiration st'' tok ty
             = failed StatusCodes.NotFound ErrorMessages.TokenNotFound"
proof -
  note store = updateTokenResetPassword_store[OF env live h, of pw]
  have "tokenStorage st' = tokenStorage (TokenStorageService_delete st tok)"
    and next': "nextToken st' = nextToken st"
    using store res by simp_all
  then have absent: "tok \<notin> token ` set (tokenStorage st')"
    using delete_removes[of tok st] by simp
  obtain row where "row \<in> set (tokenStorage st)" "token row = tok"
    using validate_live_found(1)[OF live] by auto
  then have "tok < nextToken st'"
    using issued_below[OF wf] next' by auto
  then have "tok \<notin> token ` set (tokenStorage st'')"
    using later_absent[OF later _ absent] by simp
  with absent validate_absent show ?thesis by blast
qed

theorem updateTokenResetPassword_single_shot_witness:
  "data (EnvironmentService_getByPublicKeyFromRequest busyState requestWithoutRefresh)
     = Some tenantWithoutRefresh
   \<and> statusCode (AuthService_validateUserTokenExpiration busyState 3 TokenTypes.ResetPassword)
       = None
   \<and> issued busyState
   \<and> later (snd (updateTokenResetPassword busyState requestWithoutRefresh 3 ''new''))
         (snd (requestResetPassword
                 (snd (updateTokenResetPassword busyState requestWithoutRefresh 3 ''new''))
                 request ''a@x.com''))
   \<and> fst (updateTokenResetPassword busyState requestWithoutRefresh 3 ''new'')
       = Inl (StatusCodes.NotFound, Message ErrorMessages.UserNotFound)
   \<and> 3 \<notin> token ` set (tokenStorage
                  (snd (updateTokenResetPassword busyState requestWithoutRefresh 3 ''new'')))
   \<and> AuthService_validateUserTokenExpiration
        (snd (requestResetPassword
                (snd (updateTokenResetPassword busyState requestWithoutRefresh 3 ''new''))
                request ''a@x.com''))
        3 TokenTypes.ResetPassword
       = failed StatusCodes.NotFound ErrorMessages.TokenNotFound"
proof -
  have env: "data (EnvironmentService_getByPublicKeyFromRequest busyState requestWithoutRefresh)
               = Some tenantWithoutRefresh"
    by (simp add: service_defs example_defs)
  have live: "statusCode (AuthService_validateUserTokenExpiration busyState 3
                TokenTypes.ResetPassword) = None"
    by (simp add: service_defs example_defs)
  have wf: "issued busyState" by (simp add: issued_def example_defs)
  have later: "later (snd (updateTokenResetPassword busyState requestWithoutRefresh 3 ''new''))
         (snd (requestResetPassword
                 (snd (updateTokenResetPassword busyState requestWithoutRefresh 3 ''new''))
                 request ''a@x.com''))"
    by (rule later_requestResetPassword)
  have fails: "fst (updateTokenResetPassword busyState requestWithoutRefresh 3 ''new'')
                 = Inl (StatusCodes.NotFound, Message ErrorMessages.UserNotFound)"
    by (simp add: updateTokenResetPassword_def service_defs example_defs Let_def)
  note consumed =
    updateTokenResetPassword_single_shot
      [where ty = TokenTypes.ResetPassword,
       OF env live wf disjI1[OF refl] surjective_pairing later]
  from env live wf later fails consumed show ?thesis by blast
qed

section \<open>Refresh\<close>

text \<open>
  The handler of \<^verbatim>\<open>part_000\<close>: for an environment without a refresh-token lifetime it
  throws \<^verbatim>\<open>Unauthorized\<close> before the token is looked at, and leaves the state as it was.
\<close>

lemma reAuthenticateFromRefreshToken_disabled:
  assumes "envIdHeader req = Some i"
      and "data (EnvironmentService_getById st i) = Some environment"
      and "refreshTokenExpiration environment = None"
  shows "reAuthenticateFromRefreshToken st tok req = (Inl (StatusCodes.Unauthorized, NoBody), st)"
proof -
  have "error (EnvironmentService_getById st i) = None"
    using assms(2)
    by (auto simp: EnvironmentService_getById_def ok_def failed_def split: option.splits)
  then show ?thesis
    using assms by (simp add: reAuthenticateFromRefreshToken_def falsy_def)
qed

text \<open>
  The handler of \<^verbatim>\<open>auth.controller.ts\<close>: once the session's environment is found it
  returns, whatever the environment's refresh lifetime and whatever the refresh operation
  answers.
\<close>

lemma reAuthenticateFromRefreshToken_authServices_returns:
  assumes "authorization req = Some session"
      and "data (EnvironmentService_getById st (sessionEnvironmentId session)) = Some environment"
  shows "reAuthenticateFromRefreshToken_authServices st tok req
           = (Inr (AuthService_reAuthenticateFromRefreshToken st tok
                     (Environment.id' environment)), st)"
proof -
  have "error (EnvironmentService_getById st (sessionEnvironmentId session)) = None"
    using assms(2)
    by (auto simp: EnvironmentService_getById_def ok_def failed_def split: option.splits)
  then show ?thesis
    using assms by (simp add: reAuthenticateFromRefreshToken_authServices_def)
qed

text \<open>
  C2. A refresh against an environment whose refresh-token lifetime is null is claimed to
  fail with \<^verbatim>\<open>Unauthorized\<close> whatever the token, and to mint nothing. The handler of
  \<^verbatim>\<open>auth.controller.ts\<close> does not read the lifetime and returns what the refresh
  operation returns: in the environment without refresh, Carl's unexpired refresh token
  is answered with a new access token, and a token that is not a refresh token is answered
  with the failed outcome as a normal response, not with a thrown \<^verbatim>\<open>Unauthorized\<close>.
\<close>

theorem reAuthenticateFromRefreshToken_authServices_ignores_disabled_refresh:
  "refreshTokenExpiration tenantWithoutRefresh = None
   \<and> reAuthenticateFromRefreshToken_authServices busyState (carlSession Refresh)
        requestWithoutRefresh
       = (Inr (ok \<lparr>accessToken = \<lparr>sub = 3, sessionEnvironmentId = 2, kind = Access,
                                  iat = 100, exp = 160\<rparr>,
                    refreshToken = None\<rparr>), busyState)
   \<and> reAuthenticateFromRefreshToken_authServices busyState (carlSession Access)
        requestWithoutRefresh
       = (Inr (failed StatusCodes.Unauthorized ErrorMessages.Unauthorized), busyState)
   \<and> reAuthenticateFromRefreshToken busyState (carlSession Refresh) requestWithoutRefresh
       = (Inl (StatusCodes.Unauthorized, NoBody), busyState)"
  by (simp add: reAuthenticateFromRefreshToken_authServices_def
        reAuthenticateFromRefreshToken_def service_defs example_defs Let_def)

section \<open>Confirm email and accept invitation\<close>

lemma confirmEmail_flow_NotFound:
  "confirmEmail_flow st tok (failed StatusCodes.NotFound ErrorMessages.TokenNotFound)
     = (Inl (StatusCodes.NotFound, Message ErrorMessages.TokenNotFound), st)"
  by (simp add: confirmEmail_flow_def failed_def exceptionsMapper_def)

lemma confirmEmail_tokenValidation_eq:
  "confirmEmail_tokenValidation st tok =
     (case find (\<lambda>r. token r = tok) (tokenStorage st) of
        None \<Rightarrow> failed StatusCodes.NotFound ErrorMessages.TokenNotFound
      | Some row \<Rightarrow>
          if type row = TokenTypes.ConfirmEmail \<or> type row = TokenTypes.InviteUser
          then (if now st > expires row then expired row else ok row)
          else failed StatusCodes.NotFound ErrorMessages.TokenNotFound)"
  by (simp add: confirmEmail_tokenValidation_def AuthService_validateUserTokenExpiration_def
        Let_def failed_def ok_def expired_def split: option.splits)

text \<open>
  C6. The confirm-email operation validates a token as a confirm-email token first and
  retries as an invite-user token only after \<^verbatim>\<open>NotFound\<close>. So a stored token of either
  kind drives the flow with the outcome of its own validation, live or expired; a token
  that is absent and a token of any other kind are both answered with the same
  \<^verbatim>\<open>NotFound\<close>, and the state is left as it was.
\<close>

theorem confirmEmail_kind_dispatch:
  "confirmEmail st tok =
     (case find (\<lambda>r. token r = tok) (tokenStorage st) of
        None \<Rightarrow> (Inl (StatusCodes.NotFound, Message ErrorMessages.TokenNotFound), st)
      | Some row \<Rightarrow>
          if type row = TokenTypes.ConfirmEmail \<or> type row = TokenTypes.InviteUser
          then confirmEmail_flow st tok (if now st > expires row then expired row else ok row)
          else (Inl (StatusCodes.NotFound, Message ErrorMessages.TokenNotFound), st))"
  by (simp add: confirmEmail_def confirmEmail_tokenValidation_eq confirmEmail_flow_NotFound
           split: option.splits)


lemma confirmEmail_stored:
  assumes "find (\<lambda>r. token r = tok) (tokenStorage st) = Some row"
      and "type row = TokenTypes.ConfirmEmail \<or> type row = TokenTypes.InviteUser"
  shows "confirmEmail st tok
           = confirmEmail_flow st tok (if now st > expires row then expired row else ok row)"
  using assms by (simp add: confirmEmail_def confirmEmail_tokenValidation_eq)

subsection \<open>Expired confirmation tokens\<close>





subsection \<open>Live tokens and the follow-up credential\<close>

lemma updateEmailConfirmation_member:
  assumes "find (inEnvironment userId' environmentId') (users st) \<noteq> None"
  shows "statusCode (fst (UserService_updateEmailConfirmation st userId' environmentId')) = None"
    and "snd (UserService_updateEmailConfirmation st userId' environmentId')
           = st\<lparr>users := map (confirmed userId' environmentId') (users st)\<rparr>"
  using assms
  by (auto simp: UserService_updateEmailConfirmation_def ok_def confirmed_def)

lemma getById_confirmed:
  "getById (st\<lparr>users := map (confirmed a b) (users st)\<rparr>) i
     = map_option (confirmed a b) (getById st i)"
  by (simp add: getById_def find_map_same confirmed_def)

lemma getById_delete: "getById (TokenStorageService_delete st t) i = getById st i"
  by (simp add: getById_def TokenStorageService_delete_def)

lemma environment_delete:
  "EnvironmentService_getById (TokenStorageService_delete st t) e
     = EnvironmentService_getById st e"
  by (simp add: EnvironmentService_getById_def TokenStorageService_delete_def)

lemma environment_users:
  "EnvironmentService_getById (st\<lparr>users := us\<rparr>) e = EnvironmentService_getById st e"
  by (simp add: EnvironmentService_getById_def)

lemma followUpRow_sel:
  "token (followUpRow st ty uid e) = nextToken st"
  "type (followUpRow st ty uid e) = ty"
  "relationId (followUpRow st ty uid e) = Some uid"
  by (simp_all add: followUpRow_def)

lemma afterConfirmation_store:
  "tokenStorage (afterConfirmation st tok a b) = filter (\<lambda>r. token r \<noteq> tok) (tokenStorage st)"
  "users (afterConfirmation st tok a b) = map (confirmed a b) (users st)"
  "nextToken (afterConfirmation st tok a b) = nextToken st"
  by (simp_all add: afterConfirmation_def TokenStorageService_delete_def)

lemma generate_store:
  "tokenStorage (snd (AuthService_generateResetPasswordToken st uid e)) =
     filter (\<lambda>r. \<not> (type r = TokenTypes.ResetPassword \<and> relationId r = Some uid))
       (tokenStorage st) @ [followUpRow st TokenTypes.ResetPassword uid e]"
  "tokenStorage (snd (AuthService_generateMagicLoginToken st uid e)) =
     filter (\<lambda>r. \<not> (type r = TokenTypes.MagicLogin \<and> relationId r = Some uid))
       (tokenStorage st) @ [followUpRow st TokenTypes.MagicLogin uid e]"
  "users (snd (AuthService_generateResetPasswordToken st uid e)) = users st"
  "users (snd (AuthService_generateMagicLoginToken st uid e)) = users st"
  by (simp_all add: AuthService_generateResetPasswordToken_def
        AuthService_generateMagicLoginToken_def TokenStorageService_create_def
        TokenStorageService_deleteMany_def followUpRow_def Let_def)

lemma generate_absent:
  assumes "t < nextToken st" and "t \<notin> token ` set (tokenStorage st)"
  shows "t \<notin> token ` set (tokenStorage (snd (AuthService_generateResetPasswordToken st uid e)))"
    and "t \<notin> token ` set (tokenStorage (snd (AuthService_generateMagicLoginToken st uid e)))"
  using assms by (auto simp: generate_store followUpRow_sel)

lemma confirmEmail_flow_live:
  assumes rel: "relationId row = Some uid" and env: "TokenStorage.environmentId row = Some eid"
      and member: "find (inEnvironment (Some uid) (Some eid)) (users st) \<noteq> None"
      and user: "getById st uid = Some u"
      and environment: "data (EnvironmentService_getById st eid) = Some environment"
  shows "confirmEmail_flow st tok (ok row) =
     (let st2 = afterConfirmation st tok (Some uid) (Some eid) in
      if type row = TokenTypes.InviteUser \<and> lastSignIn u = None
      then (if authProvider environment = Some AuthProviders.EmailAndPassword
            then (Inr (FollowUp TokenTypes.ResetPassword (Some (nextToken st))
                         (Some (User.email u))),
                  snd (AuthService_generateResetPasswordToken st2 uid (Some eid)))
            else if authProvider environment = Some AuthProviders.MagicLogin
            then (Inr (FollowUp TokenTypes.MagicLogin (Some (nextToken st)) None),
                  snd (AuthService_generateMagicLoginToken st2 uid (Some eid)))
            else (Inl (StatusCodes.Internal, Message ErrorMessages.InternalError), st2))
      else (Inr Empty, st2))"
proof -
  define st1 where "st1 = st\<lparr>users := map (confirmed (Some uid) (Some eid)) (users st)\<rparr>"
  define st2 where "st2 = TokenStorageService_delete st1 tok"
  have st2: "afterConfirmation st tok (Some uid) (Some eid) = st2"
    by (simp add: afterConfirmation_def st2_def st1_def)
  have upd: "snd (UserService_updateEmailConfirmation st (Some uid) (Some eid)) = st1"
    using updateEmailConfirmation_member(2)[OF member] by (simp add: st1_def)
  have sc: "statusCode (fst (UserService_updateEmailConfirmation st (Some uid) (Some eid)))
              = None"
    by (rule updateEmailConfirmation_member(1)[OF member])
  have u: "User.id' u = uid" using user by (auto simp: getById_def find_Some_iff)
  have gu: "getById st2 uid = Some (confirmed (Some uid) (Some eid) u)"
    by (simp add: st2_def st1_def getById_delete getById_confirmed user)
  have ge: "data (EnvironmentService_getById st2 eid) = Some environment"
    by (simp add: st2_def st1_def environment_delete environment_users environment)
  have cu: "lastSignIn (confirmed (Some uid) (Some eid) u) = lastSignIn u"
    "User.email (confirmed (Some uid) (Some eid) u) = User.email u"
    "User.id' (confirmed (Some uid) (Some eid) u) = uid"
    by (simp_all add: confirmed_def u)
  have nt: "nextToken st2 = nextToken st"
    by (simp add: st2_def st1_def TokenStorageService_delete_def)
  have rp: "fst (AuthService_generateResetPasswordToken st2 uid (Some eid))
              = ok (followUpRow st2 TokenTypes.ResetPassword uid (Some eid))"
    and ml: "fst (AuthService_generateMagicLoginToken st2 uid (Some eid))
              = ok (followUpRow st2 TokenTypes.MagicLogin uid (Some eid))"
    by (simp_all add: AuthService_generateResetPasswordToken_def
          AuthService_generateMagicLoginToken_def TokenStorageService_create_def
          TokenStorageService_deleteMany_def followUpRow_def Let_def)
  have "confirmEmail_flow st tok (ok row) =
     (if type row = TokenTypes.InviteUser \<and> lastSignIn u = None
      then (if authProvider environment = Some AuthProviders.EmailAndPassword
            then (Inr (FollowUp TokenTypes.ResetPassword (Some (nextToken st))
                         (Some (User.email u))),
                  snd (AuthService_generateResetPasswordToken st2 uid (Some eid)))
            else if authProvider environment = Some AuthProviders.MagicLogin
            then (Inr (FollowUp TokenTypes.MagicLogin (Some (nextToken st)) None),
                  snd (AuthService_generateMagicLoginToken st2 uid (Some eid)))
            else (Inl (StatusCodes.Internal, Message ErrorMessages.InternalError), st2))
      else (Inr Empty, st2))"
    unfolding confirmEmail_flow_def
    apply (simp add: ok_def[of row] rel env sc upd st2_def[symmetric] gu ge cu Let_def split_def
             rp ml)
    apply (simp add: ok_def followUpRow_def nt)
    done
  then show ?thesis by (simp add: st2 Let_def)
qed

text \<open>
  C7. Take a live token of kind invite-user or confirm-email whose user belongs to the
  token's environment, in a store whose token values are unique and were issued. The
  flow confirms the user's email and deletes the token. If the kind is invite-user and the
  user has never signed in, the response carries a follow-up credential that is stored
  for the user: a reset-password token, with the user's email, when the environment
  authenticates with passwords, a magic-login token when it authenticates with magic
  links, and the flow throws an internal error when it does neither. If the user has signed
  in before, or the kind is confirm-email, the response is empty.
\<close>

theorem confirmEmail_invitation_followUp:
  assumes row: "find (\<lambda>r. token r = tok) (tokenStorage st) = Some row"
      and live: "\<not> now st > expires row"
      and kind: "type row = TokenTypes.InviteUser \<or> type row = TokenTypes.ConfirmEmail"
      and rel: "relationId row = Some uid" and env: "TokenStorage.environmentId row = Some eid"
      and member: "find (inEnvironment (Some uid) (Some eid)) (users st) \<noteq> None"
      and user: "getById st uid = Some u"
      and environment: "data (EnvironmentService_getById st eid) = Some environment"
      and wf: "issued st"
      and res: "confirmEmail st tok = (r, st')"
  shows "r = (if type row = TokenTypes.InviteUser \<and> lastSignIn u = None
              then (if authProvider environment = Some AuthProviders.EmailAndPassword
                    then Inr (FollowUp TokenTypes.ResetPassword (Some (nextToken st))
                                (Some (User.email u)))
                    else if authProvider environment = Some AuthProviders.MagicLogin
                    then Inr (FollowUp TokenTypes.MagicLogin (Some (nextToken st)) None)
                    else Inl (StatusCodes.Internal, Message ErrorMessages.InternalError))
              else Inr Empty)
         \<and> users st' = map (confirmed (Some uid) (Some eid)) (users st)
         \<and> tok \<notin> token ` set (tokenStorage st')
         \<and> (\<forall>ty t em. r = Inr (FollowUp ty t em) \<longrightarrow>
               (\<exists>new \<in> set (tokenStorage st').
                  t = Some (token new) \<and> type new = ty \<and> relationId new = Some uid))"
proof -
  have "row \<in> set (tokenStorage st)" "token row = tok"
    using row by (auto simp: find_Some_iff)
  then have lt: "tok < nextToken st"
    using issued_below[OF wf] by auto
  have "confirmEmail st tok = confirmEmail_flow st tok (ok row)"
    using confirmEmail_stored[OF row] live kind by auto
  then have flow: "confirmEmail_flow st tok (ok row) = (r, st')"
    using res by simp
  note eq = confirmEmail_flow_live[OF rel env member user environment, of tok]
  define st2 where "st2 = afterConfirmation st tok (Some uid) (Some eid)"
  have st2: "tok < nextToken st2" "tok \<notin> token ` set (tokenStorage st2)"
    using lt by (auto simp: st2_def afterConfirmation_store)
  note flow' = flow[unfolded eq Let_def, folded st2_def]
  have result: "r = (if type row = TokenTypes.InviteUser \<and> lastSignIn u = None
              then (if authProvider environment = Some AuthProviders.EmailAndPassword
                    then Inr (FollowUp TokenTypes.ResetPassword (Some (nextToken st))
                                (Some (User.email u)))
                    else if authProvider environment = Some AuthProviders.MagicLogin
                    then Inr (FollowUp TokenTypes.MagicLogin (Some (nextToken st)) None)
                    else Inl (StatusCodes.Internal, Message ErrorMessages.InternalError))
              else Inr Empty)"
    using flow' by (auto split: if_splits)
  have users': "users st' = map (confirmed (Some uid) (Some eid)) (users st)"
    using flow' by (auto simp: generate_store st2_def afterConfirmation_store split: if_splits)
  have "st' = st2 \<or> st' = snd (AuthService_generateResetPasswordToken st2 uid (Some eid))
          \<or> st' = snd (AuthService_generateMagicLoginToken st2 uid (Some eid))"
    using flow' by (auto split: if_splits)
  then have absent: "tok \<notin> token ` set (tokenStorage st')"
    using st2(2) generate_absent[OF st2] by (elim disjE) simp_all
  have stored: "\<exists>new \<in> set (tokenStorage st').
                  t = Some (token new) \<and> type new = ty \<and> relationId new = Some uid"
    if "r = Inr (FollowUp ty t em)" for ty t em
    using flow' that
    by (auto simp: generate_store followUpRow_sel st2_def afterConfirmation_store
             split: if_splits)
  from result users' absent stored show ?thesis by blast
qed

theorem confirmEmail_invitation_followUp_witness:
  "find (\<lambda>r. token r = 6) (tokenStorage busyState)
     = Some (storedToken 6 TokenTypes.InviteUser 2 400)
   \<and> \<not> now busyState > expires (storedToken 6 TokenTypes.InviteUser 2 400)
   \<and> type (storedToken 6 TokenTypes.InviteUser 2 400) = TokenTypes.InviteUser
   \<and> relationId (storedToken 6 TokenTypes.InviteUser 2 400) = Some 2
   \<and> TokenStorage.environmentId (storedToken 6 TokenTypes.InviteUser 2 400) = Some 1
   \<and> find (inEnvironment (Some 2) (Some 1)) (users busyState) \<noteq> None
   \<and> getById busyState 2 = Some bob
   \<and> data (EnvironmentService_getById busyState 1) = Some tenant
   \<and> issued busyState
   \<and> lastSignIn bob = None
   \<and> authProvider tenant = Some AuthProviders.EmailAndPassword
   \<and> fst (confirmEmail busyState 6)
       = Inr (FollowUp TokenTypes.ResetPassword (Some 10) (Some ''b@x.com''))
   \<and> map emailConfirmed (users (snd (confirmEmail busyState 6))) = [False, True, True, True]
   \<and> 6 \<notin> token ` set (tokenStorage (snd (confirmEmail busyState 6)))"
proof -
  have row: "find (\<lambda>r. token r = 6) (tokenStorage busyState)
               = Some (storedToken 6 TokenTypes.InviteUser 2 400)"
    by (simp add: example_defs)
  have live: "\<not> now busyState > expires (storedToken 6 TokenTypes.InviteUser 2 400)"
    and kind: "type (storedToken 6 TokenTypes.InviteUser 2 400) = TokenTypes.InviteUser"
    and rel: "relationId (storedToken 6 TokenTypes.InviteUser 2 400) = Some 2"
    and env: "TokenStorage.environmentId (storedToken 6 TokenTypes.InviteUser 2 400) = Some 1"
    by (simp_all add: example_defs)
  have member: "find (inEnvironment (Some 2) (Some 1)) (users busyState) \<noteq> None"
    by (simp add: inEnvironment_def example_defs)
  have user: "getById busyState 2 = Some bob"
    by (simp add: getById_def example_defs)
  have environment: "data (EnvironmentService_getById busyState 1) = Some tenant"
    by (simp add: service_defs example_defs)
  have wf: "issued busyState" by (simp add: issued_def example_defs)
  have f: "lastSignIn bob = None" "authProvider tenant = Some AuthProviders.EmailAndPassword"
    by (simp_all add: example_defs)
  have g: "nextToken busyState = 10" "User.email bob = ''b@x.com''"
    by (simp_all add: example_defs)
  note followUp =
    confirmEmail_invitation_followUp
      [OF row live disjI1[OF kind] rel env member user environment wf surjective_pairing]
  have a: "fst (confirmEmail busyState 6)
             = Inr (FollowUp TokenTypes.ResetPassword (Some 10) (Some ''b@x.com''))"
    using followUp by (simp add: f g kind)
  have b: "users (snd (confirmEmail busyState 6))
             = map (confirmed (Some 2) (Some 1)) (users busyState)"
    and c: "6 \<notin> token ` set (tokenStorage (snd (confirmEmail busyState 6)))"
    using followUp by blast+
  have b': "map emailConfirmed (users (snd (confirmEmail busyState 6)))
              = [False, True, True, True]"
    unfolding b by (simp add: confirmed_def inEnvironment_def example_defs)
  from row live kind rel env member user environment wf f a b' c show ?thesis by blast
qed

section \<open>Signup\<close>






end
